theory Spec2Isabelle
  imports Main "HOL-Library.Sublist" "HOL-Library.AList"
begin

section \<open>Terminal completion service\<close>

text \<open>
  A shallow embedding of \<^verbatim>\<open>terminalCompletionService.ts\<close>: the provider registry
  (\<^verbatim>\<open>registerTerminalCompletionProvider\<close>, \<^verbatim>\<open>providers\<close>), the aggregation
  (\<^verbatim>\<open>provideCompletions\<close>, \<^verbatim>\<open>_collectCompletions\<close>) and the path resolution
  (\<^verbatim>\<open>resolveResources\<close>, \<^verbatim>\<open>getFriendlyPath\<close>, \<^verbatim>\<open>addPathRelativePrefix\<close>).

  Conventions of the model.
  \<^item> A JavaScript string is a \<^typ>\<open>string\<close>: one \<^typ>\<open>char\<close> stands for one code unit,
    and \<open>length\<close> is the source's \<^verbatim>\<open>.length\<close>.
  \<^item> The cursor offset is an \<^typ>\<open>int\<close> (the source's \<^verbatim>\<open>number\<close>, restricted to
    integers).
  \<^item> A promise that rejects is \<open>Inl e\<close>, one that resolves is \<open>Inr v\<close>; \<^verbatim>\<open>undefined\<close>
    is \<open>None\<close>.
  \<^item> The calls a request makes to its collaborators (a provider, the file service) are
    returned with the result, as a list of events.
  \<^item> Provider objects live in a store and the registry holds references to them, so that
    a write into an object is seen through every entry that refers to it.
\<close>

subsection \<open>String primitives\<close>

definition backslash :: char where
  "backslash = CHR 0x5C"

definition slash :: char where
  "slash = CHR ''/''"

text \<open>\<^verbatim>\<open>s.substring(0, n)\<close>: a negative end is clamped to 0, one beyond the length to the
  length.\<close>

definition substring0 :: "string \<Rightarrow> int \<Rightarrow> string" where
  "substring0 s n = take (nat n) s"

text \<open>\<^verbatim>\<open>s.endsWith(t)\<close> and \<^verbatim>\<open>s.startsWith(t)\<close>.\<close>

definition endsWith :: "string \<Rightarrow> string \<Rightarrow> bool" where
  "endsWith s t = suffix t s"

definition startsWith :: "string \<Rightarrow> string \<Rightarrow> bool" where
  "startsWith s t = prefix t s"

text \<open>\<^verbatim>\<open>s.split(c)\<close> for a separator of one character: the pieces between the
  occurrences of \<open>c\<close>; never the empty array.\<close>

fun split_char :: "char \<Rightarrow> string \<Rightarrow> string list" where
  "split_char c [] = [[]]"
| "split_char c (x # xs) =
     (if x = c then [] # split_char c xs
      else (case split_char c xs of
              [] \<Rightarrow> [[x]]
            | w # ws \<Rightarrow> (x # w) # ws))"

text \<open>\<^verbatim>\<open>s.lastIndexOf(t)\<close>: the greatest index at which \<open>t\<close> occurs in \<open>s\<close>, or \<open>-1\<close>.\<close>

definition lastIndexOf :: "string \<Rightarrow> string \<Rightarrow> int" where
  "lastIndexOf s t =
     (case filter (\<lambda>i. take (length t) (drop i s) = t) (rev [0 ..< Suc (length s)]) of
        [] \<Rightarrow> - 1
      | i # _ \<Rightarrow> int i)"

text \<open>\<^verbatim>\<open>s.replaceAll(/[\\/]/g, sep)\<close>: every slash and backslash becomes \<open>sep\<close>.\<close>

definition replaceSeparators :: "string \<Rightarrow> string \<Rightarrow> string" where
  "replaceSeparators s sep =
     concat (map (\<lambda>c. if c = backslash \<or> c = slash then sep else [c]) s)"

text \<open>\<^verbatim>\<open>s.replaceAll('/', '\\')\<close>.\<close>

definition slashesToBackslashes :: "string \<Rightarrow> string" where
  "slashesToBackslashes s = map (\<lambda>c. if c = slash then backslash else c) s"

subsection \<open>Completion items and the resource request\<close>

datatype TerminalCompletionItemKind = File | Folder | Method | OtherKind string

record ITerminalCompletion =
  label :: string
  provider :: string
  kind :: TerminalCompletionItemKind
  detail :: "string option"
  replacementIndex :: int
  replacementLength :: int
  isFileOverride :: "bool option"

text \<open>The type parameter \<open>'u\<close> is the \<^verbatim>\<open>URI\<close> class of \<^verbatim>\<open>base/common/uri.js\<close>.\<close>

record 'u TerminalResourceRequestConfig =
  filesRequested :: "bool option"
  foldersRequested :: "bool option"
  cwd :: "'u option"
  pathSeparator :: string
  env :: "(string \<rightharpoonup> string) option"

subsection \<open>The current word of \<^verbatim>\<open>resolveResources\<close>\<close>

definition useWindowsStylePath :: "('u, 'x) TerminalResourceRequestConfig_scheme \<Rightarrow> bool" where
  "useWindowsStylePath cfg = (pathSeparator cfg = [backslash])"

text \<open>Lines 196 to 200: the prompt after the separators are normalised.\<close>

definition normalizedPrompt :: "('u, 'x) TerminalResourceRequestConfig_scheme \<Rightarrow> string \<Rightarrow> string" where
  "normalizedPrompt cfg promptValue =
     (if useWindowsStylePath cfg then replaceSeparators promptValue (pathSeparator cfg)
      else promptValue)"

text \<open>Line 209.\<close>

definition cursorPrefix :: "('u, 'x) TerminalResourceRequestConfig_scheme \<Rightarrow> string \<Rightarrow> int \<Rightarrow> string" where
  "cursorPrefix cfg promptValue cursorPosition =
     substring0 (normalizedPrompt cfg promptValue) cursorPosition"

text \<open>Line 214: \<^verbatim>\<open>cursorPrefix.endsWith(' ') ? '' : cursorPrefix.split(' ').at(-1) ?? ''\<close>.\<close>

definition lastWordOf :: "string \<Rightarrow> string" where
  "lastWordOf cp =
     (if endsWith cp '' '' then []
      else (case split_char (CHR '' '') cp of [] \<Rightarrow> [] | w # ws \<Rightarrow> last (w # ws)))"

definition lastWord :: "('u, 'x) TerminalResourceRequestConfig_scheme \<Rightarrow> string \<Rightarrow> int \<Rightarrow> string" where
  "lastWord cfg promptValue cursorPosition = lastWordOf (cursorPrefix cfg promptValue cursorPosition)"

text \<open>The current word as the specification words it: the part of the prompt, truncated at
  the cursor, after its last whitespace character. Whitespace is what \<^verbatim>\<open>\s\<close> matches among
  the first 128 code units.\<close>

definition is_whitespace :: "char \<Rightarrow> bool" where
  "is_whitespace c = (c \<in> {CHR '' '', CHR 0x09, CHR 0x0A, CHR 0x0B, CHR 0x0C, CHR 0x0D})"

definition spec_currentWord :: "string \<Rightarrow> int \<Rightarrow> string" where
  "spec_currentWord promptValue cursorPosition =
     rev (takeWhile (\<lambda>c. \<not> is_whitespace c) (rev (substring0 promptValue cursorPosition)))"

subsection \<open>Collaborators\<close>

text \<open>A rejection carries a value; the model names it by a message.\<close>

datatype error = Error string

text \<open>What \<^verbatim>\<open>IFileService.resolve\<close> resolves to, as far as this file reads it: the
  children of the node, each with a name, a location and the two flags.\<close>

record 'u IFileStat =
  name :: string
  resource :: 'u
  isDirectory :: bool
  isFile :: bool

record 'u IFileStatWithChildren =
  children :: "'u IFileStat list option"

text \<open>The \<^verbatim>\<open>URI\<close> functions and \<^verbatim>\<open>basename\<close> are imported from files outside this
  one; they are parameters of the model.\<close>

record 'u platform =
  URI_file :: "string \<Rightarrow> 'u"
  URI_joinPath :: "'u \<Rightarrow> string \<Rightarrow> 'u"
  fsPath :: "'u \<Rightarrow> string"
  basename :: "string \<Rightarrow> string"

text \<open>The two injected services: \<^verbatim>\<open>_fileService.resolve\<close>, and
  \<^verbatim>\<open>_configurationService.getValue\<close> at the two settings this file reads
  (\<^verbatim>\<open>TerminalSuggestSettingId.Providers\<close>, an object from provider id to boolean, and
  \<^verbatim>\<open>TerminalSuggestSettingId.CdPath\<close>).\<close>

record 'u services =
  fileService_resolve :: "'u \<Rightarrow> error + 'u IFileStatWithChildren option"
  config_Providers :: "string \<rightharpoonup> bool"
  config_CdPath :: string

text \<open>\<^verbatim>\<open>capabilities.get(TerminalCapability.ShellEnvDetection)?.env\<close>: the capability may
  be absent.\<close>

record capabilities =
  shellEnv :: "(string \<rightharpoonup> string) option"

text \<open>The shell kinds are an enumeration of \<^verbatim>\<open>platform/terminal/common/terminal.js\<close>;
  this file tells only PowerShell from the others.\<close>

datatype TerminalShellType = PowerShell | OtherShell string

text \<open>What a request does to its collaborators: it invokes a provider (named by its id)
  or asks the file service to resolve a location.\<close>

datatype 'u event = Invoke string | Resolve 'u

subsection \<open>Providers\<close>

text \<open>A provider returns a flat array of items, or a \<^verbatim>\<open>TerminalCompletionList\<close> with
  optional items and an optional resource request.\<close>

datatype 'u provider_result =
  Items "ITerminalCompletion list"
| CompletionList "ITerminalCompletion list option" "'u TerminalResourceRequestConfig option"

record 'u ITerminalCompletionProvider =
  id_p :: string
  shellTypes :: "TerminalShellType list option"
  provideCompletions_p :: "string \<Rightarrow> int \<Rightarrow> error + 'u provider_result option"
  triggerCharacters :: "string list option"
  isBuiltin :: "bool option"

subsection \<open>The registry\<close>

text \<open>\<^verbatim>\<open>_providers\<close> is a \<^verbatim>\<open>Map\<close> of \<^verbatim>\<open>Map\<close>s. A \<^verbatim>\<open>Map\<close> keeps its keys in
  insertion order: it is an association list, \<^verbatim>\<open>get\<close> is \<^const>\<open>map_of\<close>, \<^verbatim>\<open>set\<close> is
  \<^const>\<open>AList.update\<close> (in place for a key that is present, at the end otherwise) and
  \<^verbatim>\<open>delete\<close> is \<^const>\<open>AList.delete\<close>.\<close>

type_synonym 'v providerMaps = "(string \<times> (string \<times> 'v) list) list"

text \<open>A provider is an object that the caller owns: the maps hold references to provider
  objects, and the objects live in a store. A reference is an address of the store.\<close>

type_synonym ref = nat

record 'u serviceState =
  objects :: "ref \<Rightarrow> 'u ITerminalCompletionProvider"
  providers_map :: "ref providerMaps"

text \<open>The maps with every reference replaced by the object it points to: what a request
  reads.\<close>

type_synonym 'u registry = "'u ITerminalCompletionProvider providerMaps"

definition registry_of :: "'u serviceState \<Rightarrow> 'u registry" where
  "registry_of st =
     map (\<lambda>(ext, providerMap). (ext, map (\<lambda>(i, r). (i, objects st r)) providerMap))
       (providers_map st)"

text \<open>Lines 76 to 86: the generator behind \<^verbatim>\<open>providers\<close>, as the objects it yields and as
  the references to them.\<close>

definition providers :: "'u registry \<Rightarrow> 'u ITerminalCompletionProvider list" where
  "providers reg = concat (map (\<lambda>(ext, providerMap). map snd providerMap) reg)"

definition providerObjects :: "'u serviceState \<Rightarrow> ref list" where
  "providerObjects st = concat (map (\<lambda>(ext, providerMap). map snd providerMap) (providers_map st))"

text \<open>Lines 95 to 113. The two assignments of lines 101 and 102 write into the caller's
  object, and line 103 stores the reference. The disposable that is returned closes over the
  two keys: the model returns them, and \<open>dispose\<close> is the function that the disposable runs
  (once).\<close>

definition registerTerminalCompletionProvider ::
  "'u serviceState \<Rightarrow> string \<Rightarrow> string \<Rightarrow> ref \<Rightarrow> string list
     \<Rightarrow> 'u serviceState \<times> (string \<times> string)" where
  "registerTerminalCompletionProvider st extensionIdentifier ident prov triggerChars =
     (let extMap = (case map_of (providers_map st) extensionIdentifier of None \<Rightarrow> [] | Some m \<Rightarrow> m);
          objects' = (objects st)
            (prov := (objects st prov)\<lparr>triggerCharacters := Some triggerChars, id_p := ident\<rparr>)
      in (\<lparr>objects = objects',
           providers_map =
             AList.update extensionIdentifier (AList.update ident prov extMap) (providers_map st)\<rparr>,
          (extensionIdentifier, ident)))"

definition dispose :: "'u serviceState \<Rightarrow> string \<times> string \<Rightarrow> 'u serviceState" where
  "dispose st h =
     (case h of (extensionIdentifier, ident) \<Rightarrow>
        (case map_of (providers_map st) extensionIdentifier of
           None \<Rightarrow> st
         | Some extMap \<Rightarrow>
             (let extMap' = AList.delete ident extMap
              in if length extMap' = 0
                 then st\<lparr>providers_map := AList.delete extensionIdentifier (providers_map st)\<rparr>
                 else st\<lparr>providers_map :=
                         AList.update extensionIdentifier extMap' (providers_map st)\<rparr>)))"

text \<open>What the two operations do to the maps alone.\<close>

definition storeEntry :: "'v providerMaps \<Rightarrow> string \<Rightarrow> string \<Rightarrow> 'v \<Rightarrow> 'v providerMaps" where
  "storeEntry reg extensionIdentifier ident v =
     AList.update extensionIdentifier
       (AList.update ident v (case map_of reg extensionIdentifier of None \<Rightarrow> [] | Some m \<Rightarrow> m)) reg"

definition removeEntry :: "'v providerMaps \<Rightarrow> string \<Rightarrow> string \<Rightarrow> 'v providerMaps" where
  "removeEntry reg extensionIdentifier ident =
     (case map_of reg extensionIdentifier of
        None \<Rightarrow> reg
      | Some extMap \<Rightarrow>
          if AList.delete ident extMap = [] then AList.delete extensionIdentifier reg
          else AList.update extensionIdentifier (AList.delete ident extMap) reg)"

text \<open>The two-level lookup, and the entries of the maps with their keys, in the order of
  the view.\<close>

definition lookup :: "'v providerMaps \<Rightarrow> string \<Rightarrow> string \<Rightarrow> 'v option" where
  "lookup reg extensionIdentifier ident =
     (case map_of reg extensionIdentifier of None \<Rightarrow> None | Some extMap \<Rightarrow> map_of extMap ident)"

definition entries :: "'v providerMaps \<Rightarrow> ((string \<times> string) \<times> 'v) list" where
  "entries reg = concat (map (\<lambda>(ext, providerMap). map (\<lambda>(i, p). ((ext, i), p)) providerMap) reg)"

text \<open>What the maps of every reachable state satisfy: the keys of a \<^verbatim>\<open>Map\<close> are distinct,
  and no bucket is empty.\<close>

definition wf_registry :: "'v providerMaps \<Rightarrow> bool" where
  "wf_registry reg =
     (distinct (map fst reg) \<and> list_all (\<lambda>(ext, m). distinct (map fst m) \<and> m \<noteq> []) reg)"

subsection \<open>Path resolution\<close>

text \<open>Lines 218 to 231.\<close>

definition lastSlashIndex :: "('u, 'x) TerminalResourceRequestConfig_scheme \<Rightarrow> string \<Rightarrow> int" where
  "lastSlashIndex cfg w =
     (if useWindowsStylePath cfg then max (lastIndexOf w [backslash]) (lastIndexOf w [slash])
      else lastIndexOf w (pathSeparator cfg))"

definition lastWordFolderOf :: "('u, 'x) TerminalResourceRequestConfig_scheme \<Rightarrow> string \<Rightarrow> string" where
  "lastWordFolderOf cfg w =
     (let i = lastSlashIndex cfg w;
          folder = (if i = - 1 then [] else take (nat (i + 1)) w)
      in if useWindowsStylePath cfg then slashesToBackslashes folder else folder)"

text \<open>The three regular expressions of lines 236 to 239: \<^verbatim>\<open>/^\.\.?[\\\/]/\<close>,
  \<^verbatim>\<open>/^~[\\\/]/\<close> and \<^verbatim>\<open>/^[a-zA-Z]:[\\\/]/\<close>.\<close>

definition startsWithSep :: "string \<Rightarrow> bool" where
  "startsWithSep s = (case s of [] \<Rightarrow> False | c # _ \<Rightarrow> c = backslash \<or> c = slash)"

definition hasDotPrefix :: "string \<Rightarrow> bool" where
  "hasDotPrefix s =
     (case s of
        [] \<Rightarrow> False
      | d # r \<Rightarrow> d = CHR ''.'' \<and>
          (startsWithSep r \<or> (case r of [] \<Rightarrow> False | e # r' \<Rightarrow> e = CHR ''.'' \<and> startsWithSep r')))"

definition hasTildePrefix :: "string \<Rightarrow> bool" where
  "hasTildePrefix s = (case s of [] \<Rightarrow> False | t # r \<Rightarrow> t = CHR ''~'' \<and> startsWithSep r)"

definition isAsciiLetter :: "char \<Rightarrow> bool" where
  "isAsciiLetter c =
     (let n = (of_char c :: nat) in (97 \<le> n \<and> n \<le> 122) \<or> (65 \<le> n \<and> n \<le> 90))"

definition hasDrivePrefix :: "string \<Rightarrow> bool" where
  "hasDrivePrefix s =
     (case s of
        l # c # r \<Rightarrow> isAsciiLetter l \<and> c = CHR '':'' \<and> startsWithSep r
      | _ \<Rightarrow> False)"

datatype pathType = tilde | absolute | relative

text \<open>Lines 238 to 241.\<close>

definition pathTypeOf :: "('u, 'x) TerminalResourceRequestConfig_scheme \<Rightarrow> string \<Rightarrow> pathType" where
  "pathTypeOf cfg w =
     (let isAbsolutePath =
            (if useWindowsStylePath cfg then hasDrivePrefix w else startsWith w (pathSeparator cfg))
      in if hasTildePrefix (lastWordFolderOf cfg w) then tilde
         else if isAbsolutePath then absolute else relative)"

text \<open>Lines 439 to 450. The drive letter is one of \<^verbatim>\<open>[a-zA-Z]\<close> when it is upper-cased.\<close>

definition toUpperCase :: "char \<Rightarrow> char" where
  "toUpperCase c =
     (let n = (of_char c :: nat) in if 97 \<le> n \<and> n \<le> 122 then char_of (n - 32) else c)"

definition getFriendlyPath ::
  "('u, 'y) platform_scheme \<Rightarrow> 'u \<Rightarrow> string \<Rightarrow> TerminalCompletionItemKind \<Rightarrow> string" where
  "getFriendlyPath pl uri sep k =
     (let path0 = fsPath pl uri;
          path1 = (if k = Folder \<and> \<not> endsWith path0 sep then path0 @ sep else path0)
      in if sep = [backslash] \<and>
            (case path1 of l # c # b # _ \<Rightarrow> isAsciiLetter l \<and> c = CHR '':'' \<and> b = backslash
                         | _ \<Rightarrow> False)
         then toUpperCase (hd path1) # CHR '':'' # drop 2 path1
         else path1)"

text \<open>Lines 456 to 461.\<close>

definition addPathRelativePrefix ::
  "string \<Rightarrow> ('u, 'x) TerminalResourceRequestConfig_scheme \<Rightarrow> bool \<Rightarrow> string" where
  "addPathRelativePrefix txt cfg lastWordFolderHasDotPrefix =
     (if \<not> lastWordFolderHasDotPrefix then ''.'' @ pathSeparator cfg @ txt else txt)"

text \<open>Every item that \<^verbatim>\<open>resolveResources\<close> pushes has this shape: the replacement span is
  written the same way at each of the five places (lines 283, 332, 371, 402, 430).\<close>

definition resourceItem ::
  "string \<Rightarrow> string \<Rightarrow> TerminalCompletionItemKind \<Rightarrow> string \<Rightarrow> int \<Rightarrow> string
     \<Rightarrow> ITerminalCompletion" where
  "resourceItem lbl prov k det cursorPosition w =
     \<lparr>label = lbl, provider = prov, kind = k, detail = Some det,
      replacementIndex = cursorPosition - int (length w),
      replacementLength = int (length w),
      isFileOverride = None\<rparr>"

text \<open>Lines 242 to 267: the resource of the folder of the last word, or (on the left) the
  text shown when the home directory is not known.\<close>

definition homeOf :: "('u, 'x) TerminalResourceRequestConfig_scheme \<Rightarrow> capabilities \<Rightarrow> string option" where
  "homeOf cfg caps =
     (case shellEnv caps of
        None \<Rightarrow> None
      | Some e \<Rightarrow>
          (case (if useWindowsStylePath cfg then e ''USERPROFILE'' else e ''HOME'') of
             None \<Rightarrow> None
           | Some home \<Rightarrow> if home = [] then None else Some home))"

definition lastWordFolderResource ::
  "('u, 'y) platform_scheme \<Rightarrow> ('u, 'x) TerminalResourceRequestConfig_scheme \<Rightarrow> 'u \<Rightarrow> capabilities
     \<Rightarrow> pathType \<Rightarrow> string \<Rightarrow> string + 'u" where
  "lastWordFolderResource pl cfg cwdUri caps ty lastWordFolder =
     (case ty of
        tilde \<Rightarrow>
          (case homeOf cfg caps of
             Some home \<Rightarrow> Inr (URI_joinPath pl (URI_file pl home) (drop 1 lastWordFolder))
           | None \<Rightarrow> Inl (if useWindowsStylePath cfg then ''Home directory'' else ''$HOME''))
      | absolute \<Rightarrow> Inr (URI_file pl lastWordFolder)
      | relative \<Rightarrow> Inr cwdUri)"

text \<open>Lines 307 to 335: the item of the folder itself.\<close>

definition selfItems ::
  "('u, 'y) platform_scheme \<Rightarrow> ('u, 'x) TerminalResourceRequestConfig_scheme \<Rightarrow> string \<Rightarrow> int
     \<Rightarrow> string \<Rightarrow> string \<Rightarrow> pathType \<Rightarrow> 'u \<Rightarrow> bool \<Rightarrow> ITerminalCompletion list" where
  "selfItems pl cfg prov cursorPosition w lastWordFolder ty res foldersReq =
     (if foldersReq then
        [resourceItem
           (case ty of
              tilde \<Rightarrow> lastWordFolder
            | absolute \<Rightarrow> lastWordFolder
            | relative \<Rightarrow>
                if length lastWordFolder > 0
                then addPathRelativePrefix lastWordFolder cfg (hasDotPrefix lastWordFolder)
                else ''.'')
           prov Folder (getFriendlyPath pl res (pathSeparator cfg) Folder) cursorPosition w]
      else [])"

text \<open>Lines 343 to 374: one item for a child that is wanted, none for another.\<close>

definition childItems ::
  "('u, 'y) platform_scheme \<Rightarrow> ('u, 'x) TerminalResourceRequestConfig_scheme \<Rightarrow> string \<Rightarrow> int
     \<Rightarrow> string \<Rightarrow> string \<Rightarrow> pathType \<Rightarrow> bool \<Rightarrow> bool \<Rightarrow> ('u, 'z) IFileStat_scheme
     \<Rightarrow> ITerminalCompletion list" where
  "childItems pl cfg prov cursorPosition w lastWordFolder ty foldersReq filesReq child =
     (case (if foldersReq \<and> isDirectory child then Some Folder
            else if filesReq \<and> isFile child then Some File else None) of
        None \<Rightarrow> []
      | Some k \<Rightarrow>
          (let sep = pathSeparator cfg;
               l0 = (if length lastWordFolder > 0 \<and> \<not> endsWith lastWordFolder sep
                     then lastWordFolder @ sep else lastWordFolder);
               l1 = l0 @ name child;
               l2 = (if ty = relative then addPathRelativePrefix l1 cfg (hasDotPrefix lastWordFolder)
                     else l1);
               l3 = (if isDirectory child \<and> \<not> endsWith l2 sep then l2 @ sep else l2)
           in [resourceItem l3 prov k (getFriendlyPath pl (resource child) sep k) cursorPosition w]))"

text \<open>Lines 385 to 408: one entry of \<^verbatim>\<open>CDPATH\<close>. A failure of the lookup is caught and
  ignored.\<close>

definition cdPathEntryItems ::
  "('u, 'y) platform_scheme \<Rightarrow> ('u, 'v) services_scheme \<Rightarrow> ('u, 'x) TerminalResourceRequestConfig_scheme
     \<Rightarrow> string \<Rightarrow> int \<Rightarrow> string \<Rightarrow> string \<Rightarrow> ITerminalCompletion list" where
  "cdPathEntryItems pl sv cfg prov cursorPosition w cdPathEntry =
     (case fileService_resolve sv (URI_file pl cdPathEntry) of
        Inl e \<Rightarrow> []
      | Inr None \<Rightarrow> []
      | Inr (Some fileStat) \<Rightarrow>
          (case children fileStat of
             None \<Rightarrow> []
           | Some cs \<Rightarrow>
               concat (map (\<lambda>child.
                 if \<not> isDirectory child then []
                 else (let useRelative = (config_CdPath sv = ''relative'');
                           friendly = getFriendlyPath pl (resource child) (pathSeparator cfg) Folder
                       in [resourceItem
                             (if useRelative then basename pl (fsPath pl (resource child)) else friendly)
                             prov Folder
                             (if useRelative then ''CDPATH '' @ friendly else ''CDPATH'')
                             cursorPosition w])) cs)))"

text \<open>Lines 378 to 412: the entries of \<^verbatim>\<open>CDPATH\<close> that are looked up.\<close>

definition cdPathEntries ::
  "('u, 'v) services_scheme \<Rightarrow> ('u, 'x) TerminalResourceRequestConfig_scheme \<Rightarrow> string \<Rightarrow> capabilities
     \<Rightarrow> pathType \<Rightarrow> bool \<Rightarrow> string list" where
  "cdPathEntries sv cfg promptValue caps ty foldersReq =
     (if ty = relative \<and> foldersReq \<and> startsWith promptValue ''cd '' \<and>
         (config_CdPath sv = ''absolute'' \<or> config_CdPath sv = ''relative'')
      then (case shellEnv caps of
              None \<Rightarrow> []
            | Some e \<Rightarrow>
                (case e ''CDPATH'' of
                   None \<Rightarrow> []
                 | Some cdPath \<Rightarrow>
                     if cdPath = [] then []
                     else split_char (if useWindowsStylePath cfg then CHR '';'' else CHR '':'') cdPath))
      else [])"

text \<open>Lines 419 to 433: the item of the parent directory.\<close>

definition parentItems ::
  "('u, 'y) platform_scheme \<Rightarrow> ('u, 'x) TerminalResourceRequestConfig_scheme \<Rightarrow> string \<Rightarrow> int
     \<Rightarrow> string \<Rightarrow> string \<Rightarrow> pathType \<Rightarrow> 'u \<Rightarrow> bool \<Rightarrow> ITerminalCompletion list" where
  "parentItems pl cfg prov cursorPosition w lastWordFolder ty cwdUri foldersReq =
     (if ty = relative \<and> foldersReq then
        [resourceItem
           (if length lastWordFolder > 0
            then addPathRelativePrefix (lastWordFolder @ ''..'' @ pathSeparator cfg) cfg
                   (hasDotPrefix lastWordFolder)
            else ''..'' @ pathSeparator cfg)
           prov Folder
           (getFriendlyPath pl (URI_joinPath pl cwdUri (''..'' @ pathSeparator cfg))
              (pathSeparator cfg) Folder)
           cursorPosition w]
      else [])"

text \<open>Lines 195 to 436. The result is the list of the lookups made and what the promise
  settles to. The test of line 272 never holds (the resource is a \<^verbatim>\<open>URI\<close> or a non-empty
  string), so the model has no branch for it.\<close>

definition resolveResources ::
  "('u, 'y) platform_scheme \<Rightarrow> ('u, 'v) services_scheme \<Rightarrow> ('u, 'x) TerminalResourceRequestConfig_scheme
     \<Rightarrow> string \<Rightarrow> int \<Rightarrow> string \<Rightarrow> capabilities
     \<Rightarrow> 'u event list \<times> (error + ITerminalCompletion list option)" where
  "resolveResources pl sv cfg promptValue0 cursorPosition prov caps =
     (let promptValue = normalizedPrompt cfg promptValue0;
          foldersReq = (case foldersRequested cfg of None \<Rightarrow> False | Some b \<Rightarrow> b);
          filesReq = (case filesRequested cfg of None \<Rightarrow> False | Some b \<Rightarrow> b)
      in case cwd cfg of
           None \<Rightarrow> ([], Inr None)
         | Some cwdUri \<Rightarrow>
             if \<not> foldersReq \<and> \<not> filesReq then ([], Inr None)
             else
               (let w = lastWord cfg promptValue0 cursorPosition;
                    lastWordFolder = lastWordFolderOf cfg w;
                    ty = pathTypeOf cfg w
                in case lastWordFolderResource pl cfg cwdUri caps ty lastWordFolder of
                     Inl txt \<Rightarrow>
                       ([], Inr (Some [resourceItem lastWordFolder prov Folder txt cursorPosition w]))
                   | Inr res \<Rightarrow>
                       (case fileService_resolve sv res of
                          Inl e \<Rightarrow> ([Resolve res], Inl e)
                        | Inr None \<Rightarrow> ([Resolve res], Inr None)
                        | Inr (Some stat) \<Rightarrow>
                            (case children stat of
                               None \<Rightarrow> ([Resolve res], Inr None)
                             | Some cs \<Rightarrow>
                                 (let cdEntries = cdPathEntries sv cfg promptValue caps ty foldersReq
                                  in (Resolve res # map (\<lambda>e. Resolve (URI_file pl e)) cdEntries,
                                      Inr (Some
                                        (selfItems pl cfg prov cursorPosition w lastWordFolder ty res foldersReq
                                         @ concat (map (childItems pl cfg prov cursorPosition w
                                                          lastWordFolder ty foldersReq filesReq) cs)
                                         @ concat (map (cdPathEntryItems pl sv cfg prov cursorPosition w)
                                                     cdEntries)
                                         @ parentItems pl cfg prov cursorPosition w lastWordFolder ty
                                             cwdUri foldersReq))))))))"

subsection \<open>Aggregation\<close>

text \<open>Line 169: \<^verbatim>\<open>completion.isFileOverride ??= ...\<close>.\<close>

definition setFileOverride :: "ITerminalCompletion \<Rightarrow> ITerminalCompletion" where
  "setFileOverride c =
     (case isFileOverride c of
        None \<Rightarrow> c\<lparr>isFileOverride := Some (kind c = Method \<and> replacementIndex c = 0)\<rparr>
      | Some b \<Rightarrow> c)"

text \<open>Lines 166 to 177: the items of a provider's answer, after the two passes over
  them.\<close>

definition itemsOf :: "'u provider_result \<Rightarrow> ITerminalCompletion list" where
  "itemsOf completions =
     (case completions of
        Items xs \<Rightarrow> xs
      | CompletionList None cfg \<Rightarrow> []
      | CompletionList (Some xs) cfg \<Rightarrow> xs)"

definition stampItems ::
  "('u, 'w) ITerminalCompletionProvider_scheme \<Rightarrow> TerminalShellType \<Rightarrow> ITerminalCompletion list
     \<Rightarrow> ITerminalCompletion list" where
  "stampItems p shellType completionItems =
     (let items1 = (if shellType = PowerShell then map setFileOverride completionItems
                    else completionItems)
      in if isBuiltin p = Some True then map (\<lambda>item. item\<lparr>provider := id_p p\<rparr>) items1
         else items1)"

text \<open>Lines 158 to 189: what the aggregation does with one provider.\<close>

definition providerCompletions ::
  "('u, 'y) platform_scheme \<Rightarrow> ('u, 'v) services_scheme \<Rightarrow> TerminalShellType \<Rightarrow> string \<Rightarrow> int
     \<Rightarrow> capabilities \<Rightarrow> 'u ITerminalCompletionProvider
     \<Rightarrow> 'u event list \<times> (error + ITerminalCompletion list option)" where
  "providerCompletions pl sv shellType promptValue cursorPosition caps p =
     (if (case shellTypes p of None \<Rightarrow> False | Some sts \<Rightarrow> shellType \<notin> set sts)
      then ([], Inr None)
      else
        (case provideCompletions_p p promptValue cursorPosition of
           Inl e \<Rightarrow> ([Invoke (id_p p)], Inl e)
         | Inr None \<Rightarrow> ([Invoke (id_p p)], Inr None)
         | Inr (Some completions) \<Rightarrow>
             (let completionItems = stampItems p shellType (itemsOf completions)
              in case completions of
                   Items xs \<Rightarrow> ([Invoke (id_p p)], Inr (Some completionItems))
                 | CompletionList its None \<Rightarrow> ([Invoke (id_p p)], Inr None)
                 | CompletionList its (Some cfg) \<Rightarrow>
                     (case resolveResources pl sv cfg promptValue cursorPosition (id_p p) caps of
                        (evs, Inl e) \<Rightarrow> (Invoke (id_p p) # evs, Inl e)
                      | (evs, Inr None) \<Rightarrow> (Invoke (id_p p) # evs, Inr (Some completionItems))
                      | (evs, Inr (Some resourceCompletions)) \<Rightarrow>
                          (Invoke (id_p p) # evs,
                           Inr (Some (completionItems @ resourceCompletions)))))))"

text \<open>\<^verbatim>\<open>Promise.all\<close>: the values in order, or a rejection. When several promises reject,
  the real one rejects with the one that rejects first in time; the model takes the first
  in the order of the array.\<close>

fun promiseAll :: "('e + 'a) list \<Rightarrow> 'e + 'a list" where
  "promiseAll [] = Inr []"
| "promiseAll (Inl e # rs) = Inl e"
| "promiseAll (Inr x # rs) = (case promiseAll rs of Inl e \<Rightarrow> Inl e | Inr xs \<Rightarrow> Inr (x # xs))"

text \<open>Lines 157 to 193. Every callback runs, whatever the others settle to, so the events
  of all of them are reported, grouped by provider.\<close>

definition collectCompletions ::
  "('u, 'y) platform_scheme \<Rightarrow> ('u, 'v) services_scheme \<Rightarrow> 'u ITerminalCompletionProvider list
     \<Rightarrow> TerminalShellType \<Rightarrow> string \<Rightarrow> int \<Rightarrow> capabilities
     \<Rightarrow> 'u event list \<times> (error + ITerminalCompletion list option)" where
  "collectCompletions pl sv ps shellType promptValue cursorPosition caps =
     (let completionPromises = map (providerCompletions pl sv shellType promptValue cursorPosition caps) ps
      in (concat (map fst completionPromises),
          (case promiseAll (map snd completionPromises) of
             Inl e \<Rightarrow> Inl e
           | Inr results \<Rightarrow> Inr (Some (concat (map (\<lambda>r. case r of None \<Rightarrow> [] | Some xs \<Rightarrow> xs) results))))))"

text \<open>Lines 122 to 134: the providers asked on a trigger character.\<close>

fun anyTriggerMatches :: "string list \<Rightarrow> string \<Rightarrow> bool" where
  "anyTriggerMatches [] s = False"
| "anyTriggerMatches (ch # chs) s = (if endsWith s ch then True else anyTriggerMatches chs s)"

fun providersToRequest ::
  "('u, 'w) ITerminalCompletionProvider_scheme list \<Rightarrow> string \<Rightarrow> int
     \<Rightarrow> ('u, 'w) ITerminalCompletionProvider_scheme list" where
  "providersToRequest [] promptValue cursorPosition = []"
| "providersToRequest (p # ps) promptValue cursorPosition =
     (case triggerCharacters p of
        None \<Rightarrow> providersToRequest ps promptValue cursorPosition
      | Some chs \<Rightarrow>
          if anyTriggerMatches chs (substring0 promptValue cursorPosition)
          then p # providersToRequest ps promptValue cursorPosition
          else providersToRequest ps promptValue cursorPosition)"

text \<open>Lines 145 to 148: the filter by the enablement setting. The setting is an object used
  as a dictionary from provider id to boolean; \<open>providerConfig\<close> holds its own keys. The test
  \<^verbatim>\<open>providerId in providerConfig\<close> also holds for the names that every object inherits
  from \<^verbatim>\<open>Object.prototype\<close>, and what is read under such a name (a function, or the
  prototype itself) is not \<^verbatim>\<open>false\<close>. An empty id is falsy and fails the test.\<close>

definition Object_prototype_names :: "string list" where
  "Object_prototype_names =
     [''constructor'', ''hasOwnProperty'', ''isPrototypeOf'', ''propertyIsEnumerable'',
      ''toLocaleString'', ''toString'', ''valueOf'', ''__proto__'',
      ''__defineGetter__'', ''__defineSetter__'', ''__lookupGetter__'', ''__lookupSetter__'']"

definition hasProperty :: "(string \<rightharpoonup> bool) \<Rightarrow> string \<Rightarrow> bool" where
  "hasProperty providerConfig k = (k \<in> dom providerConfig \<or> k \<in> set Object_prototype_names)"

definition enabledByConfig ::
  "(string \<rightharpoonup> bool) \<Rightarrow> ('u, 'w) ITerminalCompletionProvider_scheme \<Rightarrow> bool" where
  "enabledByConfig providerConfig p =
     (id_p p \<noteq> [] \<and> hasProperty providerConfig (id_p p) \<and> providerConfig (id_p p) \<noteq> Some False)"

text \<open>Lines 115 to 155. The two optional flags are \<open>False\<close> when they are not given.\<close>

definition provideCompletions ::
  "('u, 'y) platform_scheme \<Rightarrow> ('u, 'v) services_scheme \<Rightarrow> 'u registry \<Rightarrow> string \<Rightarrow> int
     \<Rightarrow> TerminalShellType \<Rightarrow> capabilities \<Rightarrow> bool \<Rightarrow> bool
     \<Rightarrow> 'u event list \<times> (error + ITerminalCompletion list option)" where
  "provideCompletions pl sv reg promptValue cursorPosition shellType caps triggerCharacter
       skipExtensionCompletions =
     (if cursorPosition < 0 then ([], Inr None)
      else
        (let ps = (if triggerCharacter then providersToRequest (providers reg) promptValue cursorPosition
                   else providers reg)
         in if skipExtensionCompletions
            then collectCompletions pl sv (filter (\<lambda>p. isBuiltin p = Some True) ps)
                   shellType promptValue cursorPosition caps
            else
              (let ps' = filter (enabledByConfig (config_Providers sv)) ps
               in if length ps' = 0 then ([], Inr None)
                  else collectCompletions pl sv ps' shellType promptValue cursorPosition caps)))"

text \<open>The providers that lines 120 to 148 leave for the aggregation, and the test of line
  159 that a provider applies to the shell.\<close>

definition selectedProviders ::
  "('u, 'v) services_scheme \<Rightarrow> 'u registry \<Rightarrow> string \<Rightarrow> int \<Rightarrow> bool \<Rightarrow> bool
     \<Rightarrow> 'u ITerminalCompletionProvider list" where
  "selectedProviders sv reg promptValue cursorPosition triggerCharacter skipExtensionCompletions =
     (let ps = (if triggerCharacter then providersToRequest (providers reg) promptValue cursorPosition
                else providers reg)
      in if skipExtensionCompletions then filter (\<lambda>p. isBuiltin p = Some True) ps
         else filter (enabledByConfig (config_Providers sv)) ps)"

definition appliesToShell :: "('u, 'w) ITerminalCompletionProvider_scheme \<Rightarrow> TerminalShellType \<Rightarrow> bool" where
  "appliesToShell p shellType = (case shellTypes p of None \<Rightarrow> True | Some sts \<Rightarrow> shellType \<in> set sts)"

text \<open>Whether the home directory cannot be read: the capability is absent, or the variable
  (\<^verbatim>\<open>USERPROFILE\<close> with the backslash separator, \<^verbatim>\<open>HOME\<close> otherwise) is unset or
  empty.\<close>

definition homeUnreadable :: "('u, 'x) TerminalResourceRequestConfig_scheme \<Rightarrow> capabilities \<Rightarrow> bool" where
  "homeUnreadable cfg caps =
     (case shellEnv caps of
        None \<Rightarrow> True
      | Some e \<Rightarrow>
          (if useWindowsStylePath cfg then e ''USERPROFILE'' else e ''HOME'') \<in> {None, Some []})"

subsection \<open>Example requests\<close>

text \<open>A small world for the examples: a location is its path, the home of the user
  \<open>/home/u\<close> holds a folder and a file, \<open>/opt\<close> holds one folder, and nothing else
  exists.\<close>

definition ex_platform :: "string platform" where
  "ex_platform =
     \<lparr>URI_file = (\<lambda>p. p), URI_joinPath = (\<lambda>u seg. u @ ''/'' @ seg), fsPath = (\<lambda>u. u),
      basename = (\<lambda>p. last (split_char (CHR ''/'') p))\<rparr>"

definition ex_resolve :: "string \<Rightarrow> error + string IFileStatWithChildren option" where
  "ex_resolve u =
     (if u = ''/home/u'' then
        Inr (Some \<lparr>children = Some
          [\<lparr>name = ''src'', resource = ''/home/u/src'', isDirectory = True, isFile = False\<rparr>,
           \<lparr>name = ''a.txt'', resource = ''/home/u/a.txt'', isDirectory = False, isFile = True\<rparr>]\<rparr>)
      else if u = ''/opt'' then
        Inr (Some \<lparr>children = Some
          [\<lparr>name = ''vscode'', resource = ''/opt/vscode'', isDirectory = True, isFile = False\<rparr>]\<rparr>)
      else Inl (Error ''ENOENT''))"

definition ex_services :: "string services" where
  "ex_services =
     \<lparr>fileService_resolve = ex_resolve,
      config_Providers = [''builtin'' \<mapsto> True, ''off'' \<mapsto> False],
      config_CdPath = ''relative''\<rparr>"

definition posix_cfg :: "string TerminalResourceRequestConfig" where
  "posix_cfg =
     \<lparr>filesRequested = Some True, foldersRequested = Some True, cwd = Some ''/home/u'',
      pathSeparator = ''/'', env = None\<rparr>"

definition ex_caps :: capabilities where
  "ex_caps = \<lparr>shellEnv = Some [''CDPATH'' \<mapsto> ''/nowhere:/opt'']\<rparr>"

definition tab_prompt :: string where
  "tab_prompt = ''cd'' @ [CHR 0x09]"

text \<open>Two providers: a builtin one that answers with an item and a resource request, and
  one of an extension that rejects.\<close>

definition ex_item :: ITerminalCompletion where
  "ex_item =
     \<lparr>label = ''cd'', provider = ''shell'', kind = Method, detail = None,
      replacementIndex = 0, replacementLength = 2, isFileOverride = None\<rparr>"

definition ex_builtin :: "string ITerminalCompletionProvider" where
  "ex_builtin =
     \<lparr>id_p = ''builtin'', shellTypes = None,
      provideCompletions_p = (\<lambda>v c. Inr (Some (CompletionList (Some [ex_item]) (Some posix_cfg)))),
      triggerCharacters = Some [''/''], isBuiltin = Some True\<rparr>"

definition ex_failing :: "string ITerminalCompletionProvider" where
  "ex_failing =
     \<lparr>id_p = ''off'', shellTypes = None,
      provideCompletions_p = (\<lambda>v c. Inl (Error ''boom'')),
      triggerCharacters = Some [], isBuiltin = None\<rparr>"

definition ex_registry :: "string registry" where
  "ex_registry = [(''core'', [(''builtin'', ex_builtin)]), (''vendor'', [(''off'', ex_failing)])]"

text \<open>A request without a working directory, and what the request \<open>cd \<close> resolves to
  in the example world.\<close>

definition no_cwd_cfg :: "string TerminalResourceRequestConfig" where
  "no_cwd_cfg = posix_cfg\<lparr>cwd := None\<rparr>"

definition ex_list_provider :: "string TerminalResourceRequestConfig \<Rightarrow> string ITerminalCompletionProvider" where
  "ex_list_provider cfg =
     \<lparr>id_p = ''paths'', shellTypes = Some [OtherShell ''bash''],
      provideCompletions_p = (\<lambda>v c. Inr (Some (CompletionList (Some [ex_item]) (Some cfg)))),
      triggerCharacters = None, isBuiltin = None\<rparr>"

definition ex_resource_items :: "ITerminalCompletion list" where
  "ex_resource_items =
     [resourceItem ''.'' ''p'' Folder ''/home/u/'' 3 [],
      resourceItem ''./src/'' ''p'' Folder ''/home/u/src/'' 3 [],
      resourceItem ''./a.txt'' ''p'' File ''/home/u/a.txt'' 3 [],
      resourceItem ''vscode'' ''p'' Folder ''CDPATH /opt/vscode/'' 3 [],
      resourceItem ''../'' ''p'' Folder ''/home/u/../'' 3 []]"

definition ex_services_all :: "string services" where
  "ex_services_all = ex_services\<lparr>config_Providers := [''builtin'' \<mapsto> True, ''off'' \<mapsto> True]\<rparr>"

text \<open>What the request \<open>cd sr\<close>, with the cursor at its end, resolves to.\<close>

definition ex_word_items :: "ITerminalCompletion list" where
  "ex_word_items =
     [resourceItem ''.'' ''p'' Folder ''/home/u/'' 5 ''sr'',
      resourceItem ''./src/'' ''p'' Folder ''/home/u/src/'' 5 ''sr'',
      resourceItem ''./a.txt'' ''p'' File ''/home/u/a.txt'' 5 ''sr'',
      resourceItem ''vscode'' ''p'' Folder ''CDPATH /opt/vscode/'' 5 ''sr'',
      resourceItem ''../'' ''p'' Folder ''/home/u/../'' 5 ''sr'']"

text \<open>A provider whose id is a name that every object inherits, and a setting that lists
  no provider.\<close>

definition ex_inherited :: "string ITerminalCompletionProvider" where
  "ex_inherited =
     \<lparr>id_p = ''constructor'', shellTypes = None,
      provideCompletions_p = (\<lambda>v c. Inr (Some (Items [ex_item]))),
      triggerCharacters = Some [], isBuiltin = None\<rparr>"

definition ex_services_empty :: "string services" where
  "ex_services_empty = ex_services\<lparr>config_Providers := Map.empty\<rparr>"

text \<open>A provider that answers with a flat array, and a registry with it on both sides of
  the provider of paths.\<close>

definition ex_word_item :: ITerminalCompletion where
  "ex_word_item =
     \<lparr>label = ''ls'', provider = ''words'', kind = Method, detail = None,
      replacementIndex = 0, replacementLength = 2, isFileOverride = None\<rparr>"

definition ex_words :: "string ITerminalCompletionProvider" where
  "ex_words =
     \<lparr>id_p = ''words'', shellTypes = None,
      provideCompletions_p = (\<lambda>v c. Inr (Some (Items [ex_word_item]))),
      triggerCharacters = None, isBuiltin = None\<rparr>"

definition ex_services_paths :: "string services" where
  "ex_services_paths = ex_services\<lparr>config_Providers := [''paths'' \<mapsto> True, ''words'' \<mapsto> True]\<rparr>"

definition ex_registry_paths :: "string registry" where
  "ex_registry_paths =
     [(''core'', [(''words'', ex_words), (''paths'', ex_list_provider no_cwd_cfg)]),
      (''vendor'', [(''words'', ex_words)])]"

text \<open>A state of the service with two provider objects, at the addresses 0 and 1, and an
  empty one.\<close>

definition ex_state :: "string serviceState" where
  "ex_state =
     \<lparr>objects = (\<lambda>r. if r = 0 then ex_builtin else ex_failing),
      providers_map = [(''core'', [(''builtin'', 0)]), (''vendor'', [(''off'', 1)])]\<rparr>"

definition ex_empty_state :: "string serviceState" where
  "ex_empty_state = \<lparr>objects = (\<lambda>r. ex_builtin), providers_map = []\<rparr>"

subsection \<open>Properties of the current word\<close>

lemma split_char_not_Nil: "split_char c s \<noteq> []"
  by (induction s) (auto split: list.splits)

lemma split_char_none: "c \<notin> set s \<Longrightarrow> split_char c s = [s]"
  by (induction s) auto

lemma split_char_some: "c \<in> set s \<Longrightarrow> 2 \<le> length (split_char c s)"
proof (induction s)
  case Nil
  then show ?case by simp
next
  case (Cons x xs)
  show ?case
  proof (cases "x = c")
    case True
    then show ?thesis
      using split_char_not_Nil [of c xs] by (cases "split_char c xs") auto
  next
    case False
    with Cons show ?thesis
      by (cases "split_char c xs") auto
  qed
qed

lemma last_split_char_Cons:
  assumes "c \<in> set s"
  shows "last (split_char c (x # s)) = last (split_char c s)"
proof -
  from split_char_some [OF assms] obtain w v vs where sp: "split_char c s = w # v # vs"
    by (cases "split_char c s"; cases "tl (split_char c s)") auto
  then show ?thesis by simp
qed

lemma last_split_char: "last (split_char c s) = rev (takeWhile (\<lambda>x. x \<noteq> c) (rev s))"
proof (induction s)
  case Nil
  show ?case by simp
next
  case (Cons x xs)
  show ?case
  proof (cases "c \<in> set xs")
    case True
    then have "takeWhile (\<lambda>x. x \<noteq> c) (rev xs @ [x]) = takeWhile (\<lambda>x. x \<noteq> c) (rev xs)"
      by (intro takeWhile_append1 [of c]) auto
    with True Cons show ?thesis
      by (simp only: last_split_char_Cons rev.simps)
  next
    case False
    then have all: "\<forall>y \<in> set (rev xs). y \<noteq> c" by auto
    have tw: "takeWhile (\<lambda>x. x \<noteq> c) (rev xs @ [x]) = rev xs @ takeWhile (\<lambda>x. x \<noteq> c) [x]"
      by (rule takeWhile_append2) (use all in blast)
    have sp: "split_char c (x # xs) = (if x = c then [[], xs] else [x # xs])"
      using False by (simp add: split_char_none)
    show ?thesis
      unfolding sp rev.simps tw by simp
  qed
qed

lemma lastWordOf_eq: "lastWordOf cp = rev (takeWhile (\<lambda>x. x \<noteq> CHR '' '') (rev cp))"
proof (cases "endsWith cp '' ''")
  case True
  then obtain ys where "cp = ys @ '' ''"
    by (auto simp: endsWith_def suffix_def)
  then show ?thesis
    using True by (simp add: lastWordOf_def)
next
  case False
  obtain w ws where sp: "split_char (CHR '' '') cp = w # ws"
    using split_char_not_Nil [of "CHR '' ''" cp] by (cases "split_char (CHR '' '') cp") auto
  show ?thesis
    using False sp last_split_char [of "CHR '' ''" cp] by (simp add: lastWordOf_def)
qed

lemma replaceSeparators_backslash:
  "replaceSeparators s [backslash] = map (\<lambda>c. if c = slash then backslash else c) s"
  by (induction s) (auto simp: replaceSeparators_def)

lemma normalizedPrompt_eq:
  "normalizedPrompt cfg promptValue =
     (if pathSeparator cfg = [CHR 0x5C]
      then map (\<lambda>c. if c = CHR ''/'' then CHR 0x5C else c) promptValue
      else promptValue)"
  using replaceSeparators_backslash [of promptValue]
  by (simp add: normalizedPrompt_def useWindowsStylePath_def backslash_def slash_def)

text \<open>
  C7, as amended. The current word is the part of the prompt (with its separators normalised,
  when the configuration uses the backslash), truncated at the cursor, that follows the last
  space character (U+0020): it has no space in it, and it is empty when the cursor follows a
  space. Without the backslash configuration the prompt is taken as it is. The truncated
  prompt is the first \<open>cursorPosition\<close> characters of the prompt, with \<open>/\<close> written as the
  backslash when that is the separator.
\<close>

theorem lastWord_after_last_space:
  "lastWord cfg promptValue cursorPosition =
     rev (takeWhile (\<lambda>c. c \<noteq> CHR '' '')
            (rev (substring0 (normalizedPrompt cfg promptValue) cursorPosition)))
   \<and> (endsWith (substring0 (normalizedPrompt cfg promptValue) cursorPosition) '' ''
        \<longrightarrow> lastWord cfg promptValue cursorPosition = [])
   \<and> (\<not> useWindowsStylePath cfg \<longrightarrow> normalizedPrompt cfg promptValue = promptValue)
   \<and> substring0 (normalizedPrompt cfg promptValue) cursorPosition
       = take (nat cursorPosition)
           (if pathSeparator cfg = [CHR 0x5C]
            then map (\<lambda>c. if c = CHR ''/'' then CHR 0x5C else c) promptValue
            else promptValue)"
proof -
  let ?cp = "substring0 (normalizedPrompt cfg promptValue) cursorPosition"
  have eq: "lastWord cfg promptValue cursorPosition
              = rev (takeWhile (\<lambda>c. c \<noteq> CHR '' '') (rev ?cp))"
    by (simp add: lastWord_def cursorPrefix_def lastWordOf_eq)
  have sp: "endsWith ?cp '' '' \<longrightarrow> lastWord cfg promptValue cursorPosition = []"
    by (simp add: lastWord_def cursorPrefix_def lastWordOf_def)
  have nw: "\<not> useWindowsStylePath cfg \<longrightarrow> normalizedPrompt cfg promptValue = promptValue"
    by (simp add: normalizedPrompt_def)
  have tr: "?cp = take (nat cursorPosition)
                    (if pathSeparator cfg = [CHR 0x5C]
                     then map (\<lambda>c. if c = CHR ''/'' then CHR 0x5C else c) promptValue
                     else promptValue)"
    unfolding substring0_def by (simp only: normalizedPrompt_eq)
  from eq sp nw tr show ?thesis by (intro conjI)
qed

theorem lastWord_after_last_space_witness:
  "endsWith (substring0 (normalizedPrompt posix_cfg ''cd src '') 7) '' ''
   \<and> \<not> useWindowsStylePath posix_cfg
   \<and> lastWord posix_cfg ''cd src '' 7 = []
   \<and> normalizedPrompt posix_cfg ''cd src '' = ''cd src ''
   \<and> lastWord posix_cfg ''cd src/x'' 6 = ''src''"
proof -
  have sep: "pathSeparator posix_cfg \<noteq> [CHR 0x5C]"
    by (simp add: posix_cfg_def)
  have inside: "lastWord posix_cfg ''cd src/x'' 6 = ''src''"
    using lastWord_after_last_space [of posix_cfg "''cd src/x''" 6] sep by simp
  show ?thesis
    using lastWord_after_last_space [of posix_cfg "''cd src ''" 7] inside
    by (simp add: posix_cfg_def useWindowsStylePath_def backslash_def normalizedPrompt_def
          substring0_def endsWith_def suffix_def)
qed

text \<open>
  C7, as stated, fails on a tab: with the cursor right after \<open>cd<TAB>\<close> the current word of
  the code is the whole \<open>cd<TAB>\<close>, where the claim says the empty string.
\<close>

theorem currentWord_tab_counterexample:
  "is_whitespace (last (substring0 tab_prompt 3))
   \<and> lastWord posix_cfg tab_prompt 3 = tab_prompt
   \<and> spec_currentWord tab_prompt 3 = []
   \<and> lastWord posix_cfg tab_prompt 3 \<noteq> spec_currentWord tab_prompt 3"
  by (simp add: tab_prompt_def is_whitespace_def substring0_def lastWord_def cursorPrefix_def
        normalizedPrompt_def useWindowsStylePath_def posix_cfg_def backslash_def
        lastWordOf_def endsWith_def suffix_def spec_currentWord_def)

subsection \<open>Which providers a request asks\<close>

lemma anyTriggerMatches_iff:
  "anyTriggerMatches chs s \<longleftrightarrow> (\<exists>ch \<in> set chs. suffix ch s)"
  by (induction chs) (auto simp: endsWith_def)

lemma providersToRequest_filter:
  "providersToRequest ps promptValue cursorPosition =
     filter (\<lambda>p. \<exists>chs. triggerCharacters p = Some chs \<and>
                    (\<exists>ch \<in> set chs. suffix ch (take (nat cursorPosition) promptValue))) ps"
  by (induction ps) (auto simp: anyTriggerMatches_iff substring0_def split: option.splits)

lemma resolveResources_events:
  "Invoke i \<notin> set (fst (resolveResources pl sv cfg promptValue cursorPosition prov caps))"
  by (auto simp: resolveResources_def Let_def split: option.splits sum.splits)

lemma resolveResources_events_pair:
  "resolveResources pl sv cfg promptValue cursorPosition prov caps = (evs, r)
     \<Longrightarrow> Invoke i \<notin> set evs"
  using resolveResources_events [of i pl sv cfg promptValue cursorPosition prov caps] by simp

lemma providerCompletions_events:
  assumes "Invoke i \<in> set (fst (providerCompletions pl sv shellType promptValue cursorPosition caps p))"
  shows "i = id_p p"
  using assms
  by (auto simp: providerCompletions_def Let_def dest: resolveResources_events_pair
        split: if_splits option.splits sum.splits provider_result.splits prod.splits)

lemma collectCompletions_events:
  assumes "Invoke i \<in> set (fst (collectCompletions pl sv ps shellType promptValue cursorPosition caps))"
  shows "\<exists>p \<in> set ps. i = id_p p"
  using assms providerCompletions_events
  by (fastforce simp: collectCompletions_def Let_def)

text \<open>
  C2. A request with a negative cursor offset has no result, whatever the prompt, the shell
  type, the two flags and the registered providers are, and it invokes no provider (it makes
  no call at all).
\<close>

theorem provideCompletions_negative_cursor:
  "cursorPosition < 0 \<Longrightarrow>
     provideCompletions pl sv reg promptValue cursorPosition shellType caps triggerCharacter
       skipExtensionCompletions = ([], Inr None)"
  by (simp add: provideCompletions_def)

theorem provideCompletions_negative_cursor_witness:
  "(- 1 :: int) < 0 \<and>
   provideCompletions ex_platform ex_services ex_registry ''cd /'' (- 1) PowerShell ex_caps True True
     = ([], Inr None)"
  using provideCompletions_negative_cursor
          [of "- 1" ex_platform ex_services ex_registry "''cd /''" PowerShell ex_caps True True]
  by simp

text \<open>
  C3. On a request initiated by a trigger character the providers selected are, in the order
  of the view, exactly those with a trigger character that is a suffix of the prompt
  truncated at the cursor (its first \<open>cursorPosition\<close> characters); a provider with no
  trigger characters (absent or empty) is not among them; and every provider that such a
  request invokes is a registered one with a matching trigger character.
\<close>

theorem trigger_selection:
  "providersToRequest ps promptValue cursorPosition =
     filter (\<lambda>p. \<exists>chs. triggerCharacters p = Some chs \<and>
                    (\<exists>ch \<in> set chs. suffix ch (take (nat cursorPosition) promptValue))) ps
   \<and> (triggerCharacters q = None \<or> triggerCharacters q = Some []
        \<longrightarrow> q \<notin> set (providersToRequest ps promptValue cursorPosition))
   \<and> (Invoke i \<in> set (fst (provideCompletions pl sv reg promptValue cursorPosition shellType caps
                               True skipExtensionCompletions))
        \<longrightarrow> (\<exists>p \<in> set (providers reg). id_p p = i \<and>
               (\<exists>chs. triggerCharacters p = Some chs \<and>
                  (\<exists>ch \<in> set chs. suffix ch (take (nat cursorPosition) promptValue)))))"
proof -
  let ?match = "\<lambda>p. \<exists>chs. triggerCharacters p = Some chs \<and>
                    (\<exists>ch \<in> set chs. suffix ch (take (nat cursorPosition) promptValue))"
  have sel: "providersToRequest ps' promptValue cursorPosition = filter ?match ps'" for ps'
    by (simp add: providersToRequest_filter)
  have none: "triggerCharacters q = None \<or> triggerCharacters q = Some []
                \<longrightarrow> q \<notin> set (providersToRequest ps promptValue cursorPosition)"
    by (auto simp: sel)
  have inv: "\<exists>p \<in> set (providers reg). id_p p = i \<and> ?match p"
    if "Invoke i \<in> set (fst (provideCompletions pl sv reg promptValue cursorPosition shellType caps
                               True skipExtensionCompletions))"
  proof -
    from that obtain qs where
      ev: "Invoke i \<in> set (fst (collectCompletions pl sv qs shellType promptValue cursorPosition caps))"
      and sub: "set qs \<subseteq> set (providersToRequest (providers reg) promptValue cursorPosition)"
      by (auto simp: provideCompletions_def Let_def split: if_splits)
    from collectCompletions_events [OF ev] obtain p where "p \<in> set qs" "i = id_p p" by blast
    with sub show ?thesis by (auto simp: sel)
  qed
  from sel [of ps] none inv show ?thesis by blast
qed

theorem trigger_selection_witness:
  "providersToRequest (providers ex_registry) ''cd /x'' 4 = [ex_builtin]
   \<and> providersToRequest (providers ex_registry) ''cd /x'' 5 = []
   \<and> triggerCharacters ex_failing = Some []
   \<and> ex_failing \<notin> set (providersToRequest (providers ex_registry) ''cd /x'' 4)
   \<and> Invoke ''builtin'' \<in> set (fst (provideCompletions ex_platform ex_services ex_registry ''cd /x'' 4
                                        PowerShell ex_caps True True))
   \<and> (\<exists>p \<in> set (providers ex_registry). id_p p = ''builtin'' \<and>
         (\<exists>chs. triggerCharacters p = Some chs \<and> (\<exists>ch \<in> set chs. suffix ch ''cd /'')))"
proof -
  have ev: "Invoke ''builtin'' \<in> set (fst (provideCompletions ex_platform ex_services ex_registry
                                             ''cd /x'' 4 PowerShell ex_caps True True))"
    by code_simp
  note inst = trigger_selection
    [of "providers ex_registry" "''cd /x''" 4 ex_failing "''builtin''" ex_platform ex_services
       ex_registry PowerShell ex_caps True]
  note past = trigger_selection
    [of "providers ex_registry" "''cd /x''" 5 ex_failing "''builtin''" ex_platform ex_services
       ex_registry PowerShell ex_caps True]
  have ps: "providers ex_registry = [ex_builtin, ex_failing]"
    by (simp add: providers_def ex_registry_def)
  have tb: "triggerCharacters ex_builtin = Some [''/'']"
    by (simp add: ex_builtin_def)
  have none: "triggerCharacters ex_failing = Some []"
    by (simp add: ex_failing_def)
  have sel: "providersToRequest (providers ex_registry) ''cd /x'' 4 = [ex_builtin]"
    using inst by (simp add: ps tb none suffix_def)
  have sel5: "providersToRequest (providers ex_registry) ''cd /x'' 5 = []"
    using past by (simp add: ps tb none suffix_def)
  have out: "ex_failing \<notin> set (providersToRequest (providers ex_registry) ''cd /x'' 4)"
    using inst none by simp
  have who: "\<exists>p \<in> set (providers ex_registry). id_p p = ''builtin'' \<and>
         (\<exists>chs. triggerCharacters p = Some chs \<and> (\<exists>ch \<in> set chs. suffix ch ''cd /''))"
    using inst ev by simp
  from sel sel5 none out ev who show ?thesis by simp
qed

lemma enabledByConfig_own_key:
  "id_p p \<notin> set Object_prototype_names \<Longrightarrow> enabledByConfig providerConfig p \<Longrightarrow>
     id_p p \<in> dom providerConfig \<and> providerConfig (id_p p) \<noteq> Some False"
  by (simp add: enabledByConfig_def hasProperty_def)

lemma provideCompletions_config_path:
  "provideCompletions pl sv reg promptValue cursorPosition shellType caps triggerCharacter False
     = (let ps = (if triggerCharacter
                  then providersToRequest (providers reg) promptValue cursorPosition
                  else providers reg);
            ps' = filter (enabledByConfig (config_Providers sv)) ps
        in if cursorPosition < 0 \<or> ps' = [] then ([], Inr None)
           else collectCompletions pl sv ps' shellType promptValue cursorPosition caps)"
  by (simp add: provideCompletions_def Let_def)

text \<open>
  C4. The test of line 147 is \<^verbatim>\<open>providerId in providerConfig\<close>, which also holds for a
  name that the setting inherits. With a setting that lists no provider, the provider
  registered under the id \<open>constructor\<close> has an id that is not a key of the setting; it
  passes the filter all the same, the request invokes it and returns its items, where the
  claim has no provider survive and the request answer with no result.
\<close>

theorem config_filter_inherited_name:
  "id_p ex_inherited \<notin> dom (config_Providers ex_services_empty)
   \<and> enabledByConfig (config_Providers ex_services_empty) ex_inherited
   \<and> provideCompletions ex_platform ex_services_empty [(''vendor'', [(''constructor'', ex_inherited)])]
       ''cd '' 3 (OtherShell ''bash'') ex_caps False False
       = ([Invoke ''constructor''], Inr (Some [ex_item]))"
proof -
  have k: "id_p ex_inherited \<notin> dom (config_Providers ex_services_empty)"
    by (simp add: ex_services_empty_def)
  have e: "enabledByConfig (config_Providers ex_services_empty) ex_inherited"
    by (simp add: enabledByConfig_def hasProperty_def Object_prototype_names_def
          ex_services_empty_def ex_inherited_def)
  have c: "collectCompletions ex_platform ex_services_empty [ex_inherited] (OtherShell ''bash'')
             ''cd '' 3 ex_caps = ([Invoke ''constructor''], Inr (Some [ex_item]))"
    by (simp add: collectCompletions_def providerCompletions_def stampItems_def itemsOf_def
          ex_inherited_def Let_def)
  from e c have "provideCompletions ex_platform ex_services_empty
                   [(''vendor'', [(''constructor'', ex_inherited)])]
                   ''cd '' 3 (OtherShell ''bash'') ex_caps False False
                 = ([Invoke ''constructor''], Inr (Some [ex_item]))"
    by (simp add: provideCompletions_def providers_def Let_def)
  with k e show ?thesis by simp
qed

text \<open>
  C9. With the builtin-only flag and a cursor that is not negative, a request for which no
  provider passes the builtin filter resolves to the empty list, not to no result, and makes
  no call.
\<close>

theorem builtin_only_empty_list:
  "0 \<le> cursorPosition \<Longrightarrow>
   filter (\<lambda>p. isBuiltin p = Some True)
     (if triggerCharacter then providersToRequest (providers reg) promptValue cursorPosition
      else providers reg) = [] \<Longrightarrow>
   provideCompletions pl sv reg promptValue cursorPosition shellType caps triggerCharacter True
     = ([], Inr (Some []))
   \<and> snd (provideCompletions pl sv reg promptValue cursorPosition shellType caps triggerCharacter True)
       \<noteq> Inr None"
  by (simp add: provideCompletions_def collectCompletions_def Let_def)

theorem builtin_only_empty_list_witness:
  "(0 :: int) \<le> 3
   \<and> filter (\<lambda>p. isBuiltin p = Some True) (providers [(''vendor'', [(''off'', ex_failing)])]) = []
   \<and> provideCompletions ex_platform ex_services [(''vendor'', [(''off'', ex_failing)])] ''cd '' 3
       PowerShell ex_caps False True = ([], Inr (Some []))
   \<and> provideCompletions ex_platform ex_services [(''vendor'', [(''off'', ex_failing)])] ''cd '' 3
       PowerShell ex_caps False False = ([], Inr None)"
proof -
  have flt: "filter (\<lambda>p. isBuiltin p = Some True)
               (if False then providersToRequest (providers [(''vendor'', [(''off'', ex_failing)])]) ''cd '' 3
                else providers [(''vendor'', [(''off'', ex_failing)])]) = []"
    by (simp add: providers_def ex_failing_def)
  have off: "provideCompletions ex_platform ex_services [(''vendor'', [(''off'', ex_failing)])] ''cd '' 3
       PowerShell ex_caps False False = ([], Inr None)"
    by (simp add: provideCompletions_def providers_def ex_failing_def enabledByConfig_def
          hasProperty_def Object_prototype_names_def ex_services_def)
  show ?thesis
    using builtin_only_empty_list [of 3 False "[(''vendor'', [(''off'', ex_failing)])]" "''cd ''"
            ex_platform ex_services PowerShell ex_caps, OF _ flt] flt off
    by simp
qed

subsection \<open>The replacement span of the resource items\<close>

lemma selfItems_span:
  "it \<in> set (selfItems pl cfg prov c w lwf ty res fr)
     \<Longrightarrow> replacementIndex it = c - int (length w) \<and> replacementLength it = int (length w)"
  by (auto simp: selfItems_def resourceItem_def split: if_splits)

lemma childItems_span:
  "it \<in> set (childItems pl cfg prov c w lwf ty fr flr child)
     \<Longrightarrow> replacementIndex it = c - int (length w) \<and> replacementLength it = int (length w)"
  by (auto simp: childItems_def resourceItem_def Let_def split: if_splits option.splits)

lemma cdPathEntryItems_span:
  "it \<in> set (cdPathEntryItems pl sv cfg prov c w entry)
     \<Longrightarrow> replacementIndex it = c - int (length w) \<and> replacementLength it = int (length w)"
  by (auto simp: cdPathEntryItems_def resourceItem_def Let_def
        split: if_splits option.splits sum.splits)

lemma parentItems_span:
  "it \<in> set (parentItems pl cfg prov c w lwf ty cwdUri fr)
     \<Longrightarrow> replacementIndex it = c - int (length w) \<and> replacementLength it = int (length w)"
  by (auto simp: parentItems_def resourceItem_def split: if_splits)

lemma resolveResources_span:
  assumes "resolveResources pl sv cfg promptValue cursorPosition prov caps = (evs, Inr (Some its))"
    and "it \<in> set its"
  shows "replacementIndex it = cursorPosition - int (length (lastWord cfg promptValue cursorPosition))
         \<and> replacementLength it = int (length (lastWord cfg promptValue cursorPosition))"
proof -
  let ?w = "lastWord cfg promptValue cursorPosition"
  have placeholder: "replacementIndex (resourceItem lbl prov k det cursorPosition ?w)
                       = cursorPosition - int (length ?w)
                     \<and> replacementLength (resourceItem lbl prov k det cursorPosition ?w)
                       = int (length ?w)" for lbl k det
    by (simp add: resourceItem_def)
  from assms show ?thesis
    by (auto simp: resolveResources_def Let_def placeholder
          dest: selfItems_span childItems_span cdPathEntryItems_span parentItems_span
          split: option.splits sum.splits if_splits)
qed

lemma last_word_covered:
  assumes "n \<le> length xs"
  shows "take (length (rev (takeWhile P (rev (take n xs)))))
           (drop (n - length (rev (takeWhile P (rev (take n xs))))) xs)
         = rev (takeWhile P (rev (take n xs)))"
proof -
  let ?pre = "take n xs"
  let ?w = "rev (takeWhile P (rev ?pre))"
  let ?ys = "rev (dropWhile P (rev ?pre))"
  have "?ys @ ?w = rev (takeWhile P (rev ?pre) @ dropWhile P (rev ?pre))"
    by (simp only: rev_append)
  also have "\<dots> = rev (rev ?pre)"
    by (simp only: takeWhile_dropWhile_id)
  also have "\<dots> = ?pre"
    by (rule rev_rev_ident)
  finally have split: "?pre = ?ys @ ?w"
    by (rule sym)
  have len: "length ?pre = n" using assms by simp
  from split have "length ?pre = length ?ys + length ?w"
    by (metis length_append)
  with len have ys: "length ?ys = n - length ?w" by simp
  have "xs = ?pre @ drop n xs" by simp
  with split have "xs = ?ys @ ?w @ drop n xs" by (metis append_assoc)
  then have "drop (length ?ys) xs = ?w @ drop n xs"
    by (metis append_eq_conv_conj)
  then show ?thesis
    unfolding ys by simp
qed

text \<open>
  C1. Every item that \<^verbatim>\<open>resolveResources\<close> returns for a request (the placeholder for the
  home directory, the item of the folder itself, the items of the children, those of
  \<^verbatim>\<open>CDPATH\<close> and the item of the parent directory) has the same replacement span. The
  current word is what follows the last space in the first \<open>cursorPosition\<close> characters of
  the prompt (with \<open>/\<close> written as the backslash when that is the separator); the span
  starts at the cursor offset minus the length of that word and has the length of that
  word, so it ends at the cursor; and with the cursor inside the prompt the span holds
  exactly that word.
\<close>

theorem resource_items_share_span:
  "resolveResources pl sv cfg promptValue cursorPosition prov caps = (evs, Inr (Some its)) \<Longrightarrow>
   it \<in> set its \<Longrightarrow>
   (let prompt = (if pathSeparator cfg = [CHR 0x5C]
                  then map (\<lambda>c. if c = CHR ''/'' then CHR 0x5C else c) promptValue
                  else promptValue);
        word = rev (takeWhile (\<lambda>c. c \<noteq> CHR '' '') (rev (take (nat cursorPosition) prompt)))
    in lastWord cfg promptValue cursorPosition = word
       \<and> replacementIndex it = cursorPosition - int (length word)
       \<and> replacementLength it = int (length word)
       \<and> replacementIndex it + replacementLength it = cursorPosition
       \<and> (0 \<le> cursorPosition \<and> cursorPosition \<le> int (length promptValue)
            \<longrightarrow> take (nat (replacementLength it)) (drop (nat (replacementIndex it)) prompt) = word))"
proof -
  assume run: "resolveResources pl sv cfg promptValue cursorPosition prov caps = (evs, Inr (Some its))"
    and mem: "it \<in> set its"
  define prompt where "prompt = (if pathSeparator cfg = [CHR 0x5C]
                  then map (\<lambda>c. if c = CHR ''/'' then CHR 0x5C else c) promptValue
                  else promptValue)"
  define word where
    "word = rev (takeWhile (\<lambda>c. c \<noteq> CHR '' '') (rev (take (nat cursorPosition) prompt)))"
  have np: "normalizedPrompt cfg promptValue = prompt"
    unfolding prompt_def by (rule normalizedPrompt_eq)
  have w: "lastWord cfg promptValue cursorPosition = word"
    by (simp add: lastWord_def cursorPrefix_def substring0_def lastWordOf_eq np word_def)
  from resolveResources_span [OF run mem]
  have idx: "replacementIndex it = cursorPosition - int (length word)"
    and len: "replacementLength it = int (length word)"
    by (simp_all add: w)
  have cover: "take (nat (replacementLength it)) (drop (nat (replacementIndex it)) prompt) = word"
    if inside: "0 \<le> cursorPosition \<and> cursorPosition \<le> int (length promptValue)"
  proof -
    have "length prompt = length promptValue" by (simp add: prompt_def)
    with inside have n: "nat cursorPosition \<le> length prompt" by (simp add: nat_le_iff)
    have short: "length word \<le> nat cursorPosition"
      unfolding word_def using n
      by (metis length_rev length_takeWhile_le length_take min.absorb2)
    then have "nat (cursorPosition - int (length word)) = nat cursorPosition - length word"
      using inside by simp
    with last_word_covered [OF n, of "\<lambda>c. c \<noteq> CHR '' ''"] show ?thesis
      by (simp add: idx len word_def)
  qed
  from w idx len cover show ?thesis
    unfolding Let_def prompt_def [symmetric] word_def [symmetric] by simp
qed

theorem resource_items_share_span_witness:
  "resolveResources ex_platform ex_services posix_cfg ''cd sr'' 5 ''p'' ex_caps
     = ([Resolve ''/home/u'', Resolve ''/nowhere'', Resolve ''/opt''], Inr (Some ex_word_items))
   \<and> resourceItem ''vscode'' ''p'' Folder ''CDPATH /opt/vscode/'' 5 ''sr'' \<in> set ex_word_items
   \<and> lastWord posix_cfg ''cd sr'' 5 = ''sr''
   \<and> replacementIndex (resourceItem ''vscode'' ''p'' Folder ''CDPATH /opt/vscode/'' 5 ''sr'') = 3
   \<and> replacementLength (resourceItem ''vscode'' ''p'' Folder ''CDPATH /opt/vscode/'' 5 ''sr'') = 2
   \<and> (0 :: int) \<le> 5 \<and> (5 :: int) \<le> int (length ''cd sr'')
   \<and> take 2 (drop 3 ''cd sr'') = ''sr''"
proof -
  have run: "resolveResources ex_platform ex_services posix_cfg ''cd sr'' 5 ''p'' ex_caps
     = ([Resolve ''/home/u'', Resolve ''/nowhere'', Resolve ''/opt''], Inr (Some ex_word_items))"
    by code_simp
  have mem: "resourceItem ''vscode'' ''p'' Folder ''CDPATH /opt/vscode/'' 5 ''sr'' \<in> set ex_word_items"
    by (simp add: ex_word_items_def)
  have sep: "pathSeparator posix_cfg \<noteq> [CHR 0x5C]"
    by (simp add: posix_cfg_def)
  note inst = resource_items_share_span [OF run mem, unfolded Let_def]
  have word: "lastWord posix_cfg ''cd sr'' 5 = ''sr''"
    using inst sep by simp
  have idx: "replacementIndex (resourceItem ''vscode'' ''p'' Folder ''CDPATH /opt/vscode/'' 5 ''sr'') = 3"
    using inst sep by simp
  have len: "replacementLength (resourceItem ''vscode'' ''p'' Folder ''CDPATH /opt/vscode/'' 5 ''sr'') = 2"
    using inst sep by simp
  have cov: "take 2 (drop 3 ''cd sr'') = ''sr''"
    using inst sep idx len by simp
  from run mem word idx len cov show ?thesis by simp
qed

subsection \<open>Requests that path resolution does not serve\<close>

lemma resolveResources_no_cwd:
  "cwd cfg = None \<Longrightarrow> resolveResources pl sv cfg promptValue cursorPosition prov caps = ([], Inr None)"
  by (simp add: resolveResources_def Let_def)

lemma resolveResources_nothing_requested:
  "filesRequested cfg \<noteq> Some True \<Longrightarrow> foldersRequested cfg \<noteq> Some True \<Longrightarrow>
     resolveResources pl sv cfg promptValue cursorPosition prov caps = ([], Inr None)"
  by (auto simp: resolveResources_def Let_def split: option.splits)

lemma collectCompletions_single:
  "collectCompletions pl sv [p] shellType promptValue cursorPosition caps =
     (case providerCompletions pl sv shellType promptValue cursorPosition caps p of
        (evs, Inl e) \<Rightarrow> (evs, Inl e)
      | (evs, Inr None) \<Rightarrow> (evs, Inr (Some []))
      | (evs, Inr (Some xs)) \<Rightarrow> (evs, Inr (Some xs)))"
  by (simp add: collectCompletions_def Let_def split: prod.splits sum.splits option.splits)

lemma provideCompletions_selected:
  "0 \<le> cursorPosition \<Longrightarrow>
   selectedProviders sv reg promptValue cursorPosition triggerCharacter skipExtensionCompletions \<noteq> [] \<Longrightarrow>
   provideCompletions pl sv reg promptValue cursorPosition shellType caps triggerCharacter
       skipExtensionCompletions
     = collectCompletions pl sv
         (selectedProviders sv reg promptValue cursorPosition triggerCharacter skipExtensionCompletions)
         shellType promptValue cursorPosition caps"
  by (auto simp: provideCompletions_def selectedProviders_def Let_def)

lemma promiseAll_append:
  "promiseAll rs = Inr xs \<Longrightarrow> promiseAll rs' = Inr ys \<Longrightarrow> promiseAll (rs @ rs') = Inr (xs @ ys)"
proof (induction rs arbitrary: xs)
  case Nil
  then show ?case by simp
next
  case (Cons r rs)
  show ?case
  proof (cases r)
    case (Inl e)
    with Cons.prems show ?thesis by simp
  next
    case (Inr x)
    with Cons.prems obtain zs where zs: "promiseAll rs = Inr zs" and xs: "xs = x # zs"
      by (auto split: sum.splits)
    from Cons.IH [OF zs Cons.prems(2)] Inr xs show ?thesis by simp
  qed
qed

lemma collectCompletions_results:
  "snd (collectCompletions pl sv ps shellType promptValue cursorPosition caps) = Inr (Some xs) \<longleftrightarrow>
     (\<exists>results. promiseAll (map (\<lambda>p. snd (providerCompletions pl sv shellType promptValue
                                              cursorPosition caps p)) ps) = Inr results
        \<and> xs = concat (map (\<lambda>r. case r of None \<Rightarrow> [] | Some zs \<Rightarrow> zs) results))"
  by (auto simp: collectCompletions_def Let_def comp_def split: sum.splits)

lemma collectCompletions_around:
  assumes before: "snd (collectCompletions pl sv qs shellType promptValue cursorPosition caps)
                     = Inr (Some xs)"
    and own: "snd (providerCompletions pl sv shellType promptValue cursorPosition caps p)
                = Inr (Some zs)"
    and after: "snd (collectCompletions pl sv rs shellType promptValue cursorPosition caps)
                  = Inr (Some ys)"
  shows "snd (collectCompletions pl sv (qs @ p # rs) shellType promptValue cursorPosition caps)
           = Inr (Some (xs @ zs @ ys))"
proof -
  let ?c = "\<lambda>p. snd (providerCompletions pl sv shellType promptValue cursorPosition caps p)"
  let ?f = "\<lambda>r :: ITerminalCompletion list option. case r of None \<Rightarrow> [] | Some zs \<Rightarrow> zs"
  from before obtain rq where rq: "promiseAll (map ?c qs) = Inr rq" and xs: "xs = concat (map ?f rq)"
    unfolding collectCompletions_results by blast
  from after obtain rr where rr: "promiseAll (map ?c rs) = Inr rr" and ys: "ys = concat (map ?f rr)"
    unfolding collectCompletions_results by blast
  from own rr have "promiseAll (map ?c (p # rs)) = Inr (Some zs # rr)" by simp
  from promiseAll_append [OF rq this]
  have "promiseAll (map ?c (qs @ p # rs)) = Inr (rq @ Some zs # rr)" by simp
  moreover have "xs @ zs @ ys = concat (map ?f (rq @ Some zs # rr))"
    by (simp add: xs ys)
  ultimately show ?thesis
    unfolding collectCompletions_results by blast
qed

text \<open>
  C10. When the resource request has no working directory, or asks neither for files nor
  for folders, \<^verbatim>\<open>resolveResources\<close> has no result and asks the file service nothing. A
  provider that applies to the shell and answers with such a request still contributes its
  own items (after the two passes over them): whatever providers are selected before and
  after it, when their callbacks resolve, the aggregation and the request return their
  items, then the provider's own items, then the items of those after it.
\<close>

theorem resolveResources_guard:
  "cwd cfg = None \<or> (filesRequested cfg \<noteq> Some True \<and> foldersRequested cfg \<noteq> Some True) \<Longrightarrow>
   resolveResources pl sv cfg promptValue cursorPosition prov caps = ([], Inr None)
   \<and> (appliesToShell p shellType \<and>
      provideCompletions_p p promptValue cursorPosition = Inr (Some (CompletionList (Some own) (Some cfg)))
      \<longrightarrow> providerCompletions pl sv shellType promptValue cursorPosition caps p
            = ([Invoke (id_p p)], Inr (Some (stampItems p shellType own)))
          \<and> (snd (collectCompletions pl sv qs shellType promptValue cursorPosition caps) = Inr (Some xs)
             \<and> snd (collectCompletions pl sv rs shellType promptValue cursorPosition caps) = Inr (Some ys)
             \<longrightarrow> snd (collectCompletions pl sv (qs @ p # rs) shellType promptValue cursorPosition caps)
                   = Inr (Some (xs @ stampItems p shellType own @ ys))
                 \<and> (0 \<le> cursorPosition
                    \<and> selectedProviders sv reg promptValue cursorPosition triggerCharacter
                         skipExtensionCompletions = qs @ p # rs
                    \<longrightarrow> snd (provideCompletions pl sv reg promptValue cursorPosition shellType caps
                               triggerCharacter skipExtensionCompletions)
                          = Inr (Some (xs @ stampItems p shellType own @ ys)))))"
proof -
  assume g: "cwd cfg = None \<or> (filesRequested cfg \<noteq> Some True \<and> foldersRequested cfg \<noteq> Some True)"
  have rr: "resolveResources pl sv cfg promptValue cursorPosition prov' caps = ([], Inr None)" for prov'
    using g resolveResources_no_cwd resolveResources_nothing_requested by blast
  have pc: "providerCompletions pl sv shellType promptValue cursorPosition caps p
              = ([Invoke (id_p p)], Inr (Some (stampItems p shellType own)))"
    if "appliesToShell p shellType"
      and "provideCompletions_p p promptValue cursorPosition
             = Inr (Some (CompletionList (Some own) (Some cfg)))"
    using that rr [of "id_p p"]
    by (auto simp: providerCompletions_def appliesToShell_def itemsOf_def Let_def
          split: option.splits)
  have agg: "snd (collectCompletions pl sv (qs @ p # rs) shellType promptValue cursorPosition caps)
               = Inr (Some (xs @ stampItems p shellType own @ ys))"
    if "appliesToShell p shellType"
      and "provideCompletions_p p promptValue cursorPosition
             = Inr (Some (CompletionList (Some own) (Some cfg)))"
      and "snd (collectCompletions pl sv qs shellType promptValue cursorPosition caps) = Inr (Some xs)"
      and "snd (collectCompletions pl sv rs shellType promptValue cursorPosition caps) = Inr (Some ys)"
  proof -
    from pc [OF that(1,2)]
    have "snd (providerCompletions pl sv shellType promptValue cursorPosition caps p)
            = Inr (Some (stampItems p shellType own))"
      by simp
    from collectCompletions_around [OF that(3) this that(4)] show ?thesis .
  qed
  have whole: "snd (provideCompletions pl sv reg promptValue cursorPosition shellType caps
                      triggerCharacter skipExtensionCompletions)
                 = snd (collectCompletions pl sv (qs @ p # rs) shellType promptValue cursorPosition caps)"
    if "0 \<le> cursorPosition"
      and "selectedProviders sv reg promptValue cursorPosition triggerCharacter
             skipExtensionCompletions = qs @ p # rs"
    using that provideCompletions_selected
            [of cursorPosition sv reg promptValue triggerCharacter skipExtensionCompletions pl
               shellType caps]
    by simp
  show ?thesis
  proof (intro conjI impI)
    show "resolveResources pl sv cfg promptValue cursorPosition prov caps = ([], Inr None)"
      by (rule rr)
  next
    assume "appliesToShell p shellType \<and>
      provideCompletions_p p promptValue cursorPosition = Inr (Some (CompletionList (Some own) (Some cfg)))"
    then show "providerCompletions pl sv shellType promptValue cursorPosition caps p
            = ([Invoke (id_p p)], Inr (Some (stampItems p shellType own)))"
      using pc by blast
  next
    assume "appliesToShell p shellType \<and>
      provideCompletions_p p promptValue cursorPosition = Inr (Some (CompletionList (Some own) (Some cfg)))"
      and "snd (collectCompletions pl sv qs shellType promptValue cursorPosition caps) = Inr (Some xs)
             \<and> snd (collectCompletions pl sv rs shellType promptValue cursorPosition caps) = Inr (Some ys)"
    then show "snd (collectCompletions pl sv (qs @ p # rs) shellType promptValue cursorPosition caps)
                   = Inr (Some (xs @ stampItems p shellType own @ ys))"
      using agg by blast
  next
    assume "appliesToShell p shellType \<and>
      provideCompletions_p p promptValue cursorPosition = Inr (Some (CompletionList (Some own) (Some cfg)))"
      and "snd (collectCompletions pl sv qs shellType promptValue cursorPosition caps) = Inr (Some xs)
             \<and> snd (collectCompletions pl sv rs shellType promptValue cursorPosition caps) = Inr (Some ys)"
      and "0 \<le> cursorPosition
                    \<and> selectedProviders sv reg promptValue cursorPosition triggerCharacter
                         skipExtensionCompletions = qs @ p # rs"
    then show "snd (provideCompletions pl sv reg promptValue cursorPosition shellType caps
                               triggerCharacter skipExtensionCompletions)
                          = Inr (Some (xs @ stampItems p shellType own @ ys))"
      using agg whole by (metis (no_types))
  qed
qed

theorem resolveResources_guard_witness:
  "cwd no_cwd_cfg = None
   \<and> resolveResources ex_platform ex_services_paths no_cwd_cfg ''cd '' 3 ''paths'' ex_caps = ([], Inr None)
   \<and> appliesToShell (ex_list_provider no_cwd_cfg) (OtherShell ''bash'')
   \<and> provideCompletions_p (ex_list_provider no_cwd_cfg) ''cd '' 3
       = Inr (Some (CompletionList (Some [ex_item]) (Some no_cwd_cfg)))
   \<and> snd (collectCompletions ex_platform ex_services_paths [ex_words] (OtherShell ''bash'') ''cd '' 3
            ex_caps) = Inr (Some [ex_word_item])
   \<and> selectedProviders ex_services_paths ex_registry_paths ''cd '' 3 False False
       = [ex_words] @ ex_list_provider no_cwd_cfg # [ex_words]
   \<and> snd (collectCompletions ex_platform ex_services_paths
            ([ex_words] @ ex_list_provider no_cwd_cfg # [ex_words]) (OtherShell ''bash'') ''cd '' 3
            ex_caps) = Inr (Some [ex_word_item, ex_item, ex_word_item])
   \<and> snd (provideCompletions ex_platform ex_services_paths ex_registry_paths ''cd '' 3
            (OtherShell ''bash'') ex_caps False False)
       = Inr (Some [ex_word_item, ex_item, ex_word_item])"
proof -
  have g: "cwd no_cwd_cfg = None
           \<or> (filesRequested no_cwd_cfg \<noteq> Some True \<and> foldersRequested no_cwd_cfg \<noteq> Some True)"
    by (simp add: no_cwd_cfg_def)
  have nc: "cwd no_cwd_cfg = None"
    by (simp add: no_cwd_cfg_def)
  have a: "appliesToShell (ex_list_provider no_cwd_cfg) (OtherShell ''bash'')"
    by (simp add: appliesToShell_def ex_list_provider_def)
  have b: "provideCompletions_p (ex_list_provider no_cwd_cfg) ''cd '' 3
             = Inr (Some (CompletionList (Some [ex_item]) (Some no_cwd_cfg)))"
    by (simp add: ex_list_provider_def)
  have st: "stampItems (ex_list_provider no_cwd_cfg) (OtherShell ''bash'') [ex_item] = [ex_item]"
    by (simp add: stampItems_def ex_list_provider_def)
  have w: "snd (collectCompletions ex_platform ex_services_paths [ex_words] (OtherShell ''bash'')
                  ''cd '' 3 ex_caps) = Inr (Some [ex_word_item])"
    by (simp add: collectCompletions_def providerCompletions_def stampItems_def itemsOf_def
          ex_words_def Let_def)
  have sel: "selectedProviders ex_services_paths ex_registry_paths ''cd '' 3 False False
               = [ex_words] @ ex_list_provider no_cwd_cfg # [ex_words]"
    by (simp add: selectedProviders_def providers_def ex_registry_paths_def enabledByConfig_def
          hasProperty_def ex_services_paths_def ex_words_def ex_list_provider_def)
  note inst = resolveResources_guard
    [OF g, of ex_platform ex_services_paths "''cd ''" 3 "''paths''" ex_caps
       "ex_list_provider no_cwd_cfg" "OtherShell ''bash''" "[ex_item]" "[ex_words]" "[ex_word_item]"
       "[ex_words]" "[ex_word_item]" ex_registry_paths False False]
  have none: "resolveResources ex_platform ex_services_paths no_cwd_cfg ''cd '' 3 ''paths'' ex_caps
                = ([], Inr None)"
    using inst by (rule conjunct1)
  have agg: "snd (collectCompletions ex_platform ex_services_paths
                    ([ex_words] @ ex_list_provider no_cwd_cfg # [ex_words]) (OtherShell ''bash'')
                    ''cd '' 3 ex_caps) = Inr (Some [ex_word_item, ex_item, ex_word_item])"
    using inst a b w st by simp
  have whole: "snd (provideCompletions ex_platform ex_services_paths ex_registry_paths ''cd '' 3
                      (OtherShell ''bash'') ex_caps False False)
                 = Inr (Some [ex_word_item, ex_item, ex_word_item])"
    using inst a b w st sel by simp
  from nc none a b w sel agg whole show ?thesis by (intro conjI)
qed

subsection \<open>The home directory that cannot be read\<close>

lemma homeOf_unreadable: "homeUnreadable cfg caps \<Longrightarrow> homeOf cfg caps = None"
  by (auto simp: homeUnreadable_def homeOf_def split: option.splits if_splits)

text \<open>
  C6, as amended. For a request that has a working directory and asks for files or for
  folders: when the folder of the current word starts with \<open>~\<close> and a separator and the home
  directory cannot be read (the capability is absent, or the variable is unset or empty),
  \<^verbatim>\<open>resolveResources\<close> returns exactly one item, of kind folder, labelled with the folder
  of the current word, whose detail is \<open>$HOME\<close> (\<open>Home directory\<close> with the backslash
  separator), and it asks the file service nothing.
\<close>

theorem tilde_placeholder:
  "cwd cfg = Some cwdUri \<Longrightarrow>
   filesRequested cfg = Some True \<or> foldersRequested cfg = Some True \<Longrightarrow>
   hasTildePrefix (lastWordFolderOf cfg (lastWord cfg promptValue cursorPosition)) \<Longrightarrow>
   homeUnreadable cfg caps \<Longrightarrow>
   pathTypeOf cfg (lastWord cfg promptValue cursorPosition) = tilde
   \<and> resolveResources pl sv cfg promptValue cursorPosition prov caps =
       ([], Inr (Some
          [\<lparr>label = lastWordFolderOf cfg (lastWord cfg promptValue cursorPosition),
            provider = prov, kind = Folder,
            detail = Some (if useWindowsStylePath cfg then ''Home directory'' else ''$HOME''),
            replacementIndex = cursorPosition - int (length (lastWord cfg promptValue cursorPosition)),
            replacementLength = int (length (lastWord cfg promptValue cursorPosition)),
            isFileOverride = None\<rparr>]))"
proof -
  assume c: "cwd cfg = Some cwdUri"
    and r: "filesRequested cfg = Some True \<or> foldersRequested cfg = Some True"
    and t: "hasTildePrefix (lastWordFolderOf cfg (lastWord cfg promptValue cursorPosition))"
    and h: "homeUnreadable cfg caps"
  have ty: "pathTypeOf cfg (lastWord cfg promptValue cursorPosition) = tilde"
    using t by (simp add: pathTypeOf_def Let_def)
  have res: "lastWordFolderResource pl cfg cwdUri caps tilde lwf
               = Inl (if useWindowsStylePath cfg then ''Home directory'' else ''$HOME'')" for lwf
    using homeOf_unreadable [OF h] by (simp add: lastWordFolderResource_def)
  have req: "\<not> (\<not> (case foldersRequested cfg of None \<Rightarrow> False | Some b \<Rightarrow> b)
               \<and> \<not> (case filesRequested cfg of None \<Rightarrow> False | Some b \<Rightarrow> b))"
    using r by auto
  show ?thesis
    using c req ty res
    by (simp add: resolveResources_def Let_def resourceItem_def del: not_None_eq)
qed

theorem tilde_placeholder_witness:
  "cwd posix_cfg = Some ''/home/u''
   \<and> filesRequested posix_cfg = Some True
   \<and> hasTildePrefix (lastWordFolderOf posix_cfg (lastWord posix_cfg ''cd ~/'' 5))
   \<and> homeUnreadable posix_cfg ex_caps
   \<and> resolveResources ex_platform ex_services posix_cfg ''cd ~/'' 5 ''p'' ex_caps =
       ([], Inr (Some [resourceItem ''~/'' ''p'' Folder ''$HOME'' 5 ''~/'']))"
proof -
  have c: "cwd posix_cfg = Some ''/home/u''"
    by (simp add: posix_cfg_def)
  have r: "filesRequested posix_cfg = Some True \<or> foldersRequested posix_cfg = Some True"
    by (simp add: posix_cfg_def)
  have w: "lastWord posix_cfg ''cd ~/'' 5 = ''~/''"
    by code_simp
  have f: "lastWordFolderOf posix_cfg ''~/'' = ''~/''"
    by code_simp
  have t: "hasTildePrefix (lastWordFolderOf posix_cfg (lastWord posix_cfg ''cd ~/'' 5))"
    unfolding w f by code_simp
  have h: "homeUnreadable posix_cfg ex_caps"
    by (simp add: homeUnreadable_def ex_caps_def useWindowsStylePath_def posix_cfg_def backslash_def)
  have nw: "\<not> useWindowsStylePath posix_cfg"
    by (simp add: useWindowsStylePath_def posix_cfg_def backslash_def)
  have fr: "filesRequested posix_cfg = Some True"
    by (simp add: posix_cfg_def)
  from tilde_placeholder [OF c r t h, of ex_platform ex_services "''p''"] c fr t h nw
  show ?thesis
    by (simp add: w f resourceItem_def)
qed

text \<open>
  C6, as stated, fails for a request without a working directory: the folder of the current
  word of \<open>cd ~/\<close> starts with \<open>~/\<close> and no home directory can be read, and
  \<^verbatim>\<open>resolveResources\<close> has no result where the claim says one placeholder item.
\<close>

theorem tilde_placeholder_counterexample:
  "hasTildePrefix (lastWordFolderOf no_cwd_cfg (lastWord no_cwd_cfg ''cd ~/'' 5))
   \<and> pathTypeOf no_cwd_cfg (lastWord no_cwd_cfg ''cd ~/'' 5) = tilde
   \<and> homeUnreadable no_cwd_cfg ex_caps
   \<and> resolveResources ex_platform ex_services no_cwd_cfg ''cd ~/'' 5 ''p'' ex_caps = ([], Inr None)"
proof -
  have a: "hasTildePrefix (lastWordFolderOf no_cwd_cfg (lastWord no_cwd_cfg ''cd ~/'' 5))"
    by code_simp
  have b: "pathTypeOf no_cwd_cfg (lastWord no_cwd_cfg ''cd ~/'' 5) = tilde"
    by code_simp
  have c: "homeUnreadable no_cwd_cfg ex_caps"
    by (simp add: homeUnreadable_def ex_caps_def useWindowsStylePath_def no_cwd_cfg_def
          posix_cfg_def backslash_def)
  have d: "resolveResources ex_platform ex_services no_cwd_cfg ''cd ~/'' 5 ''p'' ex_caps = ([], Inr None)"
    by (simp add: resolveResources_def no_cwd_cfg_def Let_def)
  from a b c d show ?thesis by simp
qed

subsection \<open>Failures\<close>

lemma promiseAll_Inl:
  "Inl e \<in> set rs \<Longrightarrow> \<exists>e'. promiseAll rs = Inl e' \<and> Inl e' \<in> set rs"
  by (induction rs rule: promiseAll.induct) (auto split: sum.splits)

lemma collectCompletions_rejects:
  assumes "p \<in> set ps"
    and "snd (providerCompletions pl sv shellType promptValue cursorPosition caps p) = Inl e"
  shows "\<exists>q \<in> set ps. \<exists>e'.
           snd (providerCompletions pl sv shellType promptValue cursorPosition caps q) = Inl e'
           \<and> snd (collectCompletions pl sv ps shellType promptValue cursorPosition caps) = Inl e'"
proof -
  let ?rs = "map snd (map (providerCompletions pl sv shellType promptValue cursorPosition caps) ps)"
  from assms have "Inl e \<in> set ?rs" by force
  from promiseAll_Inl [OF this] obtain e' where pa: "promiseAll ?rs = Inl e'" and mem: "Inl e' \<in> set ?rs"
    by blast
  from mem obtain q where "q \<in> set ps"
    "snd (providerCompletions pl sv shellType promptValue cursorPosition caps q) = Inl e'"
    by auto
  with pa show ?thesis
    by (auto simp: collectCompletions_def Let_def)
qed

lemma provider_rejects:
  "appliesToShell p shellType \<Longrightarrow> provideCompletions_p p promptValue cursorPosition = Inl e \<Longrightarrow>
     providerCompletions pl sv shellType promptValue cursorPosition caps p = ([Invoke (id_p p)], Inl e)"
  by (auto simp: providerCompletions_def appliesToShell_def split: option.splits)

lemma provider_resolve_rejects:
  "appliesToShell p shellType \<Longrightarrow>
   provideCompletions_p p promptValue cursorPosition = Inr (Some (CompletionList its (Some cfg))) \<Longrightarrow>
   snd (resolveResources pl sv cfg promptValue cursorPosition (id_p p) caps) = Inl e \<Longrightarrow>
   snd (providerCompletions pl sv shellType promptValue cursorPosition caps p) = Inl e"
  by (auto simp: providerCompletions_def appliesToShell_def Let_def split: option.splits prod.splits sum.splits)

lemma primary_lookup_rejects:
  "cwd cfg = Some cwdUri \<Longrightarrow>
   filesRequested cfg = Some True \<or> foldersRequested cfg = Some True \<Longrightarrow>
   lastWordFolderResource pl cfg cwdUri caps (pathTypeOf cfg (lastWord cfg promptValue cursorPosition))
     (lastWordFolderOf cfg (lastWord cfg promptValue cursorPosition)) = Inr res \<Longrightarrow>
   fileService_resolve sv res = Inl e \<Longrightarrow>
   resolveResources pl sv cfg promptValue cursorPosition prov caps = ([Resolve res], Inl e)"
  by (auto simp: resolveResources_def Let_def)

lemma cdPath_entry_swallowed:
  "fileService_resolve sv (URI_file pl entry) = Inl e \<Longrightarrow>
     cdPathEntryItems pl sv cfg prov cursorPosition w entry = []"
  by (simp add: cdPathEntryItems_def)

lemma listing_succeeds:
  "cwd cfg = Some cwdUri \<Longrightarrow>
   filesRequested cfg = Some True \<or> foldersRequested cfg = Some True \<Longrightarrow>
   lastWordFolderResource pl cfg cwdUri caps (pathTypeOf cfg (lastWord cfg promptValue cursorPosition))
     (lastWordFolderOf cfg (lastWord cfg promptValue cursorPosition)) = Inr res \<Longrightarrow>
   fileService_resolve sv res = Inr (Some stat) \<Longrightarrow> children stat = Some cs \<Longrightarrow>
   snd (resolveResources pl sv cfg promptValue cursorPosition prov caps) =
     Inr (Some
       (selfItems pl cfg prov cursorPosition (lastWord cfg promptValue cursorPosition)
          (lastWordFolderOf cfg (lastWord cfg promptValue cursorPosition))
          (pathTypeOf cfg (lastWord cfg promptValue cursorPosition)) res (foldersRequested cfg = Some True)
        @ concat (map (childItems pl cfg prov cursorPosition (lastWord cfg promptValue cursorPosition)
                         (lastWordFolderOf cfg (lastWord cfg promptValue cursorPosition))
                         (pathTypeOf cfg (lastWord cfg promptValue cursorPosition))
                         (foldersRequested cfg = Some True) (filesRequested cfg = Some True)) cs)
        @ concat (map (cdPathEntryItems pl sv cfg prov cursorPosition (lastWord cfg promptValue cursorPosition))
                    (cdPathEntries sv cfg (normalizedPrompt cfg promptValue) caps
                       (pathTypeOf cfg (lastWord cfg promptValue cursorPosition))
                       (foldersRequested cfg = Some True)))
        @ parentItems pl cfg prov cursorPosition (lastWord cfg promptValue cursorPosition)
            (lastWordFolderOf cfg (lastWord cfg promptValue cursorPosition))
            (pathTypeOf cfg (lastWord cfg promptValue cursorPosition)) cwdUri
            (foldersRequested cfg = Some True)))"
proof -
  have b: "(case x of None \<Rightarrow> False | Some b \<Rightarrow> b) = (x = Some True)" for x :: "bool option"
    by (cases x) auto
  assume "cwd cfg = Some cwdUri" "filesRequested cfg = Some True \<or> foldersRequested cfg = Some True"
   "lastWordFolderResource pl cfg cwdUri caps (pathTypeOf cfg (lastWord cfg promptValue cursorPosition))
     (lastWordFolderOf cfg (lastWord cfg promptValue cursorPosition)) = Inr res"
   "fileService_resolve sv res = Inr (Some stat)" "children stat = Some cs"
  then show ?thesis
    by (auto simp: resolveResources_def Let_def b)
qed

text \<open>
  C5. A provider that applies to the shell and whose invocation rejects makes its callback
  reject with that error; so does a failure of the lookup of the folder of the current word
  in the path resolution that the provider asked for. When the callback of a selected
  provider rejects, the request rejects with the error of a rejecting callback (no items are
  returned). A failure of the lookup of an entry of \<^verbatim>\<open>CDPATH\<close> is different: the entry
  contributes no item, and a listing that succeeded still resolves to the items of the
  folder, of the children, of every entry of \<^verbatim>\<open>CDPATH\<close> in turn, and of the parent.
\<close>

theorem failures_propagate_except_cdpath:
  "(appliesToShell p shellType \<and> provideCompletions_p p promptValue cursorPosition = Inl e
      \<longrightarrow> providerCompletions pl sv shellType promptValue cursorPosition caps p
            = ([Invoke (id_p p)], Inl e))
   \<and> (cwd cfg = Some cwdUri
       \<and> (filesRequested cfg = Some True \<or> foldersRequested cfg = Some True)
       \<and> lastWordFolderResource pl cfg cwdUri caps
            (pathTypeOf cfg (lastWord cfg promptValue cursorPosition))
            (lastWordFolderOf cfg (lastWord cfg promptValue cursorPosition)) = Inr res
       \<and> fileService_resolve sv res = Inl e
      \<longrightarrow> resolveResources pl sv cfg promptValue cursorPosition prov caps = ([Resolve res], Inl e))
   \<and> (appliesToShell p shellType
       \<and> provideCompletions_p p promptValue cursorPosition = Inr (Some (CompletionList its (Some cfg)))
       \<and> snd (resolveResources pl sv cfg promptValue cursorPosition (id_p p) caps) = Inl e
      \<longrightarrow> snd (providerCompletions pl sv shellType promptValue cursorPosition caps p) = Inl e)
   \<and> (0 \<le> cursorPosition
       \<and> p \<in> set (selectedProviders sv reg promptValue cursorPosition triggerCharacter
                     skipExtensionCompletions)
       \<and> snd (providerCompletions pl sv shellType promptValue cursorPosition caps p) = Inl e
      \<longrightarrow> (\<exists>q \<in> set (selectedProviders sv reg promptValue cursorPosition triggerCharacter
                         skipExtensionCompletions).
            \<exists>e'. snd (providerCompletions pl sv shellType promptValue cursorPosition caps q) = Inl e'
               \<and> snd (provideCompletions pl sv reg promptValue cursorPosition shellType caps
                         triggerCharacter skipExtensionCompletions) = Inl e'))
   \<and> (fileService_resolve sv (URI_file pl entry) = Inl e
      \<longrightarrow> cdPathEntryItems pl sv cfg prov cursorPosition w entry = [])
   \<and> (cwd cfg = Some cwdUri
       \<and> (filesRequested cfg = Some True \<or> foldersRequested cfg = Some True)
       \<and> lastWordFolderResource pl cfg cwdUri caps
            (pathTypeOf cfg (lastWord cfg promptValue cursorPosition))
            (lastWordFolderOf cfg (lastWord cfg promptValue cursorPosition)) = Inr res
       \<and> fileService_resolve sv res = Inr (Some stat) \<and> children stat = Some cs
      \<longrightarrow> snd (resolveResources pl sv cfg promptValue cursorPosition prov caps) =
            Inr (Some
              (selfItems pl cfg prov cursorPosition (lastWord cfg promptValue cursorPosition)
                 (lastWordFolderOf cfg (lastWord cfg promptValue cursorPosition))
                 (pathTypeOf cfg (lastWord cfg promptValue cursorPosition)) res
                 (foldersRequested cfg = Some True)
               @ concat (map (childItems pl cfg prov cursorPosition
                                (lastWord cfg promptValue cursorPosition)
                                (lastWordFolderOf cfg (lastWord cfg promptValue cursorPosition))
                                (pathTypeOf cfg (lastWord cfg promptValue cursorPosition))
                                (foldersRequested cfg = Some True) (filesRequested cfg = Some True)) cs)
               @ concat (map (cdPathEntryItems pl sv cfg prov cursorPosition
                                (lastWord cfg promptValue cursorPosition))
                           (cdPathEntries sv cfg (normalizedPrompt cfg promptValue) caps
                              (pathTypeOf cfg (lastWord cfg promptValue cursorPosition))
                              (foldersRequested cfg = Some True)))
               @ parentItems pl cfg prov cursorPosition (lastWord cfg promptValue cursorPosition)
                   (lastWordFolderOf cfg (lastWord cfg promptValue cursorPosition))
                   (pathTypeOf cfg (lastWord cfg promptValue cursorPosition)) cwdUri
                   (foldersRequested cfg = Some True))))"
proof (intro conjI impI)
  assume "appliesToShell p shellType \<and> provideCompletions_p p promptValue cursorPosition = Inl e"
  then show "providerCompletions pl sv shellType promptValue cursorPosition caps p
               = ([Invoke (id_p p)], Inl e)"
    using provider_rejects by blast
next
  assume "cwd cfg = Some cwdUri
       \<and> (filesRequested cfg = Some True \<or> foldersRequested cfg = Some True)
       \<and> lastWordFolderResource pl cfg cwdUri caps
            (pathTypeOf cfg (lastWord cfg promptValue cursorPosition))
            (lastWordFolderOf cfg (lastWord cfg promptValue cursorPosition)) = Inr res
       \<and> fileService_resolve sv res = Inl e"
  then show "resolveResources pl sv cfg promptValue cursorPosition prov caps = ([Resolve res], Inl e)"
    using primary_lookup_rejects [of cfg cwdUri pl caps promptValue cursorPosition res sv e prov]
    by blast
next
  assume "appliesToShell p shellType
       \<and> provideCompletions_p p promptValue cursorPosition = Inr (Some (CompletionList its (Some cfg)))
       \<and> snd (resolveResources pl sv cfg promptValue cursorPosition (id_p p) caps) = Inl e"
  then show "snd (providerCompletions pl sv shellType promptValue cursorPosition caps p) = Inl e"
    using provider_resolve_rejects [of p shellType promptValue cursorPosition its cfg pl sv caps e]
    by blast
next
  let ?sel = "selectedProviders sv reg promptValue cursorPosition triggerCharacter
                skipExtensionCompletions"
  assume a: "0 \<le> cursorPosition \<and> p \<in> set ?sel
       \<and> snd (providerCompletions pl sv shellType promptValue cursorPosition caps p) = Inl e"
  then have ne: "?sel \<noteq> []" by auto
  have "provideCompletions pl sv reg promptValue cursorPosition shellType caps triggerCharacter
          skipExtensionCompletions
        = collectCompletions pl sv ?sel shellType promptValue cursorPosition caps"
    using a ne by (simp add: provideCompletions_selected)
  then show "\<exists>q \<in> set ?sel.
            \<exists>e'. snd (providerCompletions pl sv shellType promptValue cursorPosition caps q) = Inl e'
               \<and> snd (provideCompletions pl sv reg promptValue cursorPosition shellType caps
                         triggerCharacter skipExtensionCompletions) = Inl e'"
    using a collectCompletions_rejects [of p ?sel pl sv shellType promptValue cursorPosition caps e]
    by simp
next
  assume "fileService_resolve sv (URI_file pl entry) = Inl e"
  then show "cdPathEntryItems pl sv cfg prov cursorPosition w entry = []"
    by (rule cdPath_entry_swallowed)
next
  assume "cwd cfg = Some cwdUri
       \<and> (filesRequested cfg = Some True \<or> foldersRequested cfg = Some True)
       \<and> lastWordFolderResource pl cfg cwdUri caps
            (pathTypeOf cfg (lastWord cfg promptValue cursorPosition))
            (lastWordFolderOf cfg (lastWord cfg promptValue cursorPosition)) = Inr res
       \<and> fileService_resolve sv res = Inr (Some stat) \<and> children stat = Some cs"
  then show "snd (resolveResources pl sv cfg promptValue cursorPosition prov caps) =
            Inr (Some
              (selfItems pl cfg prov cursorPosition (lastWord cfg promptValue cursorPosition)
                 (lastWordFolderOf cfg (lastWord cfg promptValue cursorPosition))
                 (pathTypeOf cfg (lastWord cfg promptValue cursorPosition)) res
                 (foldersRequested cfg = Some True)
               @ concat (map (childItems pl cfg prov cursorPosition
                                (lastWord cfg promptValue cursorPosition)
                                (lastWordFolderOf cfg (lastWord cfg promptValue cursorPosition))
                                (pathTypeOf cfg (lastWord cfg promptValue cursorPosition))
                                (foldersRequested cfg = Some True) (filesRequested cfg = Some True)) cs)
               @ concat (map (cdPathEntryItems pl sv cfg prov cursorPosition
                                (lastWord cfg promptValue cursorPosition))
                           (cdPathEntries sv cfg (normalizedPrompt cfg promptValue) caps
                              (pathTypeOf cfg (lastWord cfg promptValue cursorPosition))
                              (foldersRequested cfg = Some True)))
               @ parentItems pl cfg prov cursorPosition (lastWord cfg promptValue cursorPosition)
                   (lastWordFolderOf cfg (lastWord cfg promptValue cursorPosition))
                   (pathTypeOf cfg (lastWord cfg promptValue cursorPosition)) cwdUri
                   (foldersRequested cfg = Some True)))"
    using listing_succeeds [of cfg cwdUri pl caps promptValue cursorPosition res sv "stat" cs prov]
    by blast
qed

theorem failures_propagate_except_cdpath_witness:
  "appliesToShell ex_failing PowerShell
   \<and> provideCompletions_p ex_failing ''cd '' 3 = Inl (Error ''boom'')
   \<and> ex_failing \<in> set (selectedProviders ex_services_all ex_registry ''cd '' 3 False False)
   \<and> snd (providerCompletions ex_platform ex_services_all PowerShell ''cd '' 3 ex_caps ex_failing)
       = Inl (Error ''boom'')
   \<and> snd (provideCompletions ex_platform ex_services_all ex_registry ''cd '' 3 PowerShell ex_caps
            False False) = Inl (Error ''boom'')
   \<and> fileService_resolve ex_services_all (URI_file ex_platform ''/nowhere'') = Inl (Error ''ENOENT'')
   \<and> cdPathEntryItems ex_platform ex_services_all posix_cfg ''p'' 3 [] ''/nowhere'' = []
   \<and> cdPathEntryItems ex_platform ex_services_all posix_cfg ''p'' 3 [] ''/opt''
       = [resourceItem ''vscode'' ''p'' Folder ''CDPATH /opt/vscode/'' 3 []]
   \<and> fileService_resolve ex_services_all ''/nowhere/'' = Inl (Error ''ENOENT'')
   \<and> resolveResources ex_platform ex_services_all posix_cfg ''ls /nowhere/'' 12 ''builtin'' ex_caps
       = ([Resolve ''/nowhere/''], Inl (Error ''ENOENT''))
   \<and> snd (providerCompletions ex_platform ex_services_all PowerShell ''ls /nowhere/'' 12 ex_caps
            ex_builtin) = Inl (Error ''ENOENT'')
   \<and> snd (resolveResources ex_platform ex_services_all posix_cfg ''cd '' 3 ''p'' ex_caps)
       = Inr (Some ex_resource_items)"
proof -
  have cw: "cwd posix_cfg = Some ''/home/u''"
    by (simp add: posix_cfg_def)
  have rq: "filesRequested posix_cfg = Some True \<or> foldersRequested posix_cfg = Some True"
    by (simp add: posix_cfg_def)
  have folder: "lastWordFolderResource ex_platform posix_cfg ''/home/u'' ex_caps
                  (pathTypeOf posix_cfg (lastWord posix_cfg ''ls /nowhere/'' 12))
                  (lastWordFolderOf posix_cfg (lastWord posix_cfg ''ls /nowhere/'' 12))
                = Inr ''/nowhere/''"
    by code_simp
  have gone: "fileService_resolve ex_services_all ''/nowhere/'' = Inl (Error ''ENOENT'')"
    by (simp add: ex_services_all_def ex_services_def ex_resolve_def)
  note lookup_inst = failures_propagate_except_cdpath
    [where p = ex_builtin and shellType = PowerShell and promptValue = "''ls /nowhere/''"
       and cursorPosition = 12 and e = "Error ''ENOENT''" and pl = ex_platform
       and sv = ex_services_all and caps = ex_caps and reg = ex_registry
       and triggerCharacter = False and skipExtensionCompletions = False and cfg = posix_cfg
       and cwdUri = "''/home/u''" and res = "''/nowhere/''" and prov = "''builtin''"
       and entry = "''/nowhere''" and w = "[]" and stat = "\<lparr>children = None\<rparr>" and cs = "[]"
       and its = "Some [ex_item]"]
  have primary: "resolveResources ex_platform ex_services_all posix_cfg ''ls /nowhere/'' 12
                   ''builtin'' ex_caps = ([Resolve ''/nowhere/''], Inl (Error ''ENOENT''))"
    using lookup_inst cw rq folder gone by simp
  have ab: "appliesToShell ex_builtin PowerShell"
    by (simp add: appliesToShell_def ex_builtin_def)
  have answer: "provideCompletions_p ex_builtin ''ls /nowhere/'' 12
                  = Inr (Some (CompletionList (Some [ex_item]) (Some posix_cfg)))"
    by (simp add: ex_builtin_def)
  have idb: "id_p ex_builtin = ''builtin''"
    by (simp add: ex_builtin_def)
  have through: "snd (providerCompletions ex_platform ex_services_all PowerShell ''ls /nowhere/'' 12
                        ex_caps ex_builtin) = Inl (Error ''ENOENT'')"
    using lookup_inst ab answer primary idb by simp
  have folder': "lastWordFolderResource ex_platform posix_cfg ''/home/u'' ex_caps
                   (pathTypeOf posix_cfg (lastWord posix_cfg ''cd '' 3))
                   (lastWordFolderOf posix_cfg (lastWord posix_cfg ''cd '' 3))
                 = Inr ''/home/u''"
    by code_simp
  have there: "fileService_resolve ex_services_all ''/home/u''
                 = Inr (Some \<lparr>children = Some
                     [\<lparr>name = ''src'', resource = ''/home/u/src'', isDirectory = True, isFile = False\<rparr>,
                      \<lparr>name = ''a.txt'', resource = ''/home/u/a.txt'', isDirectory = False,
                         isFile = True\<rparr>]\<rparr>)"
    by (simp add: ex_services_all_def ex_services_def ex_resolve_def)
  have listed: "snd (resolveResources ex_platform ex_services_all posix_cfg ''cd '' 3 ''p'' ex_caps)
                  = Inr (Some ex_resource_items)"
    by code_simp
  note listing_inst = failures_propagate_except_cdpath
    [where p = ex_builtin and shellType = PowerShell and promptValue = "''cd ''"
       and cursorPosition = 3 and e = "Error ''ENOENT''" and pl = ex_platform
       and sv = ex_services_all and caps = ex_caps and reg = ex_registry
       and triggerCharacter = False and skipExtensionCompletions = False and cfg = posix_cfg
       and cwdUri = "''/home/u''" and res = "''/home/u''" and prov = "''p''"
       and entry = "''/nowhere''" and w = "[]"
       and stat = "\<lparr>children = Some
                     [\<lparr>name = ''src'', resource = ''/home/u/src'', isDirectory = True, isFile = False\<rparr>,
                      \<lparr>name = ''a.txt'', resource = ''/home/u/a.txt'', isDirectory = False,
                         isFile = True\<rparr>]\<rparr>"
       and cs = "[\<lparr>name = ''src'', resource = ''/home/u/src'', isDirectory = True, isFile = False\<rparr>,
                  \<lparr>name = ''a.txt'', resource = ''/home/u/a.txt'', isDirectory = False,
                     isFile = True\<rparr>]"
       and its = "Some [ex_item]"]
  have shape: "snd (resolveResources ex_platform ex_services_all posix_cfg ''cd '' 3 ''p'' ex_caps)
     = Inr (Some
         (selfItems ex_platform posix_cfg ''p'' 3 (lastWord posix_cfg ''cd '' 3)
            (lastWordFolderOf posix_cfg (lastWord posix_cfg ''cd '' 3))
            (pathTypeOf posix_cfg (lastWord posix_cfg ''cd '' 3)) ''/home/u''
            (foldersRequested posix_cfg = Some True)
          @ concat (map (childItems ex_platform posix_cfg ''p'' 3 (lastWord posix_cfg ''cd '' 3)
                           (lastWordFolderOf posix_cfg (lastWord posix_cfg ''cd '' 3))
                           (pathTypeOf posix_cfg (lastWord posix_cfg ''cd '' 3))
                           (foldersRequested posix_cfg = Some True)
                           (filesRequested posix_cfg = Some True))
                      [\<lparr>name = ''src'', resource = ''/home/u/src'', isDirectory = True, isFile = False\<rparr>,
                       \<lparr>name = ''a.txt'', resource = ''/home/u/a.txt'', isDirectory = False,
                          isFile = True\<rparr>])
          @ concat (map (cdPathEntryItems ex_platform ex_services_all posix_cfg ''p'' 3
                           (lastWord posix_cfg ''cd '' 3))
                      (cdPathEntries ex_services_all posix_cfg (normalizedPrompt posix_cfg ''cd '')
                         ex_caps (pathTypeOf posix_cfg (lastWord posix_cfg ''cd '' 3))
                         (foldersRequested posix_cfg = Some True)))
          @ parentItems ex_platform posix_cfg ''p'' 3 (lastWord posix_cfg ''cd '' 3)
              (lastWordFolderOf posix_cfg (lastWord posix_cfg ''cd '' 3))
              (pathTypeOf posix_cfg (lastWord posix_cfg ''cd '' 3)) ''/home/u''
              (foldersRequested posix_cfg = Some True)))"
    using listing_inst cw rq folder' there by simp
  have a: "appliesToShell ex_failing PowerShell"
    by (simp add: appliesToShell_def ex_failing_def)
  have b: "provideCompletions_p ex_failing ''cd '' 3 = Inl (Error ''boom'')"
    by (simp add: ex_failing_def)
  have sel: "selectedProviders ex_services_all ex_registry ''cd '' 3 False False
               = [ex_builtin, ex_failing]"
    by (simp add: selectedProviders_def providers_def ex_registry_def enabledByConfig_def
          hasProperty_def ex_services_all_def ex_services_def ex_builtin_def ex_failing_def)
  have "\<not> isl (snd (providerCompletions ex_platform ex_services_all PowerShell ''cd '' 3 ex_caps
                       ex_builtin))"
    by code_simp
  then have good: "snd (providerCompletions ex_platform ex_services_all PowerShell ''cd '' 3 ex_caps
                     ex_builtin) \<noteq> Inl x" for x
    by auto
  have f: "fileService_resolve ex_services_all (URI_file ex_platform ''/nowhere'')
             = Inl (Error ''ENOENT'')"
    by (simp add: ex_services_all_def ex_services_def ex_platform_def ex_resolve_def)
  have o: "cdPathEntryItems ex_platform ex_services_all posix_cfg ''p'' 3 [] ''/opt''
             = [resourceItem ''vscode'' ''p'' Folder ''CDPATH /opt/vscode/'' 3 []]"
    by code_simp
  note inst = failures_propagate_except_cdpath
    [where p = ex_failing and shellType = PowerShell and promptValue = "''cd ''"
       and cursorPosition = 3 and e = "Error ''boom''" and pl = ex_platform and sv = ex_services_all
       and caps = ex_caps and reg = ex_registry and triggerCharacter = False
       and skipExtensionCompletions = False and cfg = posix_cfg and cwdUri = "''/home/u''"
       and res = "''/home/u''" and prov = "''p''" and entry = "''/nowhere''" and w = "[]"
       and stat = "\<lparr>children = None\<rparr>" and cs = "[]" and its = None]
  have pc: "snd (providerCompletions ex_platform ex_services_all PowerShell ''cd '' 3 ex_caps ex_failing)
              = Inl (Error ''boom'')"
    using inst a b by simp
  have mem: "ex_failing \<in> set (selectedProviders ex_services_all ex_registry ''cd '' 3 False False)"
    by (simp add: sel)
  have "\<exists>q \<in> set (selectedProviders ex_services_all ex_registry ''cd '' 3 False False).
          \<exists>e'. snd (providerCompletions ex_platform ex_services_all PowerShell ''cd '' 3 ex_caps q) = Inl e'
             \<and> snd (provideCompletions ex_platform ex_services_all ex_registry ''cd '' 3 PowerShell
                       ex_caps False False) = Inl e'"
    using inst pc mem by simp
  then obtain q e' where
    q: "q \<in> set (selectedProviders ex_services_all ex_registry ''cd '' 3 False False)"
    and qe: "snd (providerCompletions ex_platform ex_services_all PowerShell ''cd '' 3 ex_caps q) = Inl e'"
    and res: "snd (provideCompletions ex_platform ex_services_all ex_registry ''cd '' 3 PowerShell
                     ex_caps False False) = Inl e'"
    by blast
  from q sel have "q = ex_builtin \<or> q = ex_failing" by simp
  with qe good pc have "e' = Error ''boom''" by auto
  with res have whole: "snd (provideCompletions ex_platform ex_services_all ex_registry ''cd '' 3
                               PowerShell ex_caps False False) = Inl (Error ''boom'')"
    by simp
  have sw: "cdPathEntryItems ex_platform ex_services_all posix_cfg ''p'' 3 [] ''/nowhere'' = []"
    using failures_propagate_except_cdpath
      [where sv = ex_services_all and pl = ex_platform and entry = "''/nowhere''"
         and e = "Error ''ENOENT''" and cfg = posix_cfg and prov = "''p''" and cursorPosition = 3
         and w = "[]"] f
    by simp
  from a b mem pc whole f sw o gone primary through listed show ?thesis by simp
qed

subsection \<open>The registry\<close>

lemma map_of_all_None: "(\<forall>j. map_of m j = None) \<longleftrightarrow> m = []"
proof
  assume a: "\<forall>j. map_of m j = None"
  show "m = []"
  proof (cases m)
    case Nil
    then show ?thesis .
  next
    case (Cons x xs)
    with a [rule_format, of "fst x"] show ?thesis by (cases x) simp
  qed
qed simp

lemma register_handle:
  "snd (registerTerminalCompletionProvider st ext ident r tcs) = (ext, ident)"
  by (simp add: registerTerminalCompletionProvider_def Let_def)

lemma register_maps:
  "providers_map (fst (registerTerminalCompletionProvider st ext ident r tcs))
     = storeEntry (providers_map st) ext ident r"
  by (simp add: registerTerminalCompletionProvider_def storeEntry_def Let_def)

lemma register_objects:
  "objects (fst (registerTerminalCompletionProvider st ext ident r tcs))
     = (objects st)(r := (objects st r)\<lparr>triggerCharacters := Some tcs, id_p := ident\<rparr>)"
  by (simp add: registerTerminalCompletionProvider_def Let_def)

lemma dispose_maps:
  "providers_map (dispose st (ext, ident)) = removeEntry (providers_map st) ext ident"
  by (simp add: dispose_def removeEntry_def Let_def split: option.splits)

lemma dispose_objects: "objects (dispose st h) = objects st"
  by (cases h) (simp add: dispose_def Let_def split: option.splits)

lemma lookup_store_same: "lookup (storeEntry reg ext ident v) ext ident = Some v"
  by (simp add: storeEntry_def lookup_def update_conv')

lemma lookup_store_other:
  "(e, i) \<noteq> (ext, ident) \<Longrightarrow> lookup (storeEntry reg ext ident v) e i = lookup reg e i"
  by (auto simp: storeEntry_def lookup_def update_conv' split: option.splits)

lemma lookup_remove_same: "lookup (removeEntry reg ext ident) ext ident = None"
  by (auto simp: removeEntry_def lookup_def update_conv' delete_conv' split: option.splits)

lemma delete_Nil_map_of: "AList.delete k m = [] \<Longrightarrow> i \<noteq> k \<Longrightarrow> map_of m i = None"
  by (metis map_of_delete map_of.simps(1))

lemma lookup_remove_other:
  "(e, i) \<noteq> (ext, ident) \<Longrightarrow> lookup (removeEntry reg ext ident) e i = lookup reg e i"
  by (auto simp: removeEntry_def lookup_def update_conv' delete_conv' delete_Nil_map_of
        split: option.splits)

lemma remove_bucket:
  "map_of (removeEntry reg ext ident) ext = None \<longleftrightarrow> (\<forall>i. i \<noteq> ident \<longrightarrow> lookup reg ext i = None)"
proof (cases "map_of reg ext")
  case None
  then show ?thesis by (simp add: removeEntry_def lookup_def)
next
  case (Some m)
  have "AList.delete ident m = [] \<longleftrightarrow> (\<forall>i. i \<noteq> ident \<longrightarrow> map_of m i = None)"
  proof -
    have "AList.delete ident m = [] \<longleftrightarrow> (\<forall>j. map_of (AList.delete ident m) j = None)"
      by (simp add: map_of_all_None)
    also have "\<dots> \<longleftrightarrow> (\<forall>i. i \<noteq> ident \<longrightarrow> map_of m i = None)"
      by (auto simp: delete_conv')
    finally show ?thesis .
  qed
  with Some show ?thesis
    by (auto simp: removeEntry_def lookup_def update_conv' delete_conv')
qed

lemma store_overwrites:
  "storeEntry (storeEntry reg ext ident v1) ext ident v2 = storeEntry reg ext ident v2"
  by (simp add: storeEntry_def update_conv')

lemma entries_Cons: "entries ((e, m) # reg) = map (\<lambda>(i, p). ((e, i), p)) m @ entries reg"
  by (simp add: entries_def)

lemma view_entries: "concat (map (\<lambda>(ext, providerMap). map snd providerMap) reg) = map snd (entries reg)"
  by (induction reg) (auto simp: entries_def map_concat comp_def split_def)

lemma providers_entries: "providers reg = map snd (entries reg)"
  by (simp add: providers_def view_entries)

lemma providerObjects_entries: "providerObjects st = map snd (entries (providers_map st))"
  by (simp add: providerObjects_def view_entries)

lemma providers_registry_of:
  "providers (registry_of st) = map (objects st) (providerObjects st)"
proof -
  have "concat (map (\<lambda>(ext, providerMap). map snd providerMap)
                  (map (\<lambda>(ext, providerMap). (ext, map (\<lambda>(i, r). (i, f r)) providerMap)) reg))
          = map f (concat (map (\<lambda>(ext, providerMap). map snd providerMap) reg))"
    for f :: "ref \<Rightarrow> 'a ITerminalCompletionProvider" and reg :: "ref providerMaps"
    by (induction reg) (auto simp: split_def comp_def)
  then show ?thesis
    by (simp add: providers_def registry_of_def providerObjects_def)
qed

lemma filter_bucket:
  "filter (\<lambda>(k, _). k \<noteq> (ext, ident)) (map (\<lambda>(i, p). ((e, i), p)) m)
     = (if e = ext then map (\<lambda>(i, p). ((e, i), p)) (AList.delete ident m)
        else map (\<lambda>(i, p). ((e, i), p)) m)"
  by (induction m) auto

lemma filter_entries_absent:
  "ext \<notin> fst ` set reg \<Longrightarrow> filter (\<lambda>(k, _). k \<noteq> (ext, ident)) (entries reg) = entries reg"
proof (induction reg)
  case Nil
  show ?case by (simp add: entries_def)
next
  case (Cons b reg)
  obtain e m where b: "b = (e, m)" by (cases b)
  with Cons show ?case
    by (auto simp: entries_Cons filter_bucket)
qed

lemma entries_remove:
  "distinct (map fst reg) \<Longrightarrow>
     entries (removeEntry reg ext ident) = filter (\<lambda>(k, _). k \<noteq> (ext, ident)) (entries reg)"
proof (induction reg)
  case Nil
  show ?case by (simp add: removeEntry_def entries_def)
next
  case (Cons b reg)
  obtain e m where b: "b = (e, m)" by (cases b)
  show ?case
  proof (cases "e = ext")
    case True
    with Cons.prems b have absent: "ext \<notin> fst ` set reg" by auto
    then have "AList.delete ext reg = reg" by simp
    with True b absent show ?thesis
      by (simp add: removeEntry_def entries_Cons filter_bucket filter_entries_absent)
  next
    case False
    from Cons b have ih: "entries (removeEntry reg ext ident)
                            = filter (\<lambda>(k, _). k \<noteq> (ext, ident)) (entries reg)"
      by simp
    have "removeEntry ((e, m) # reg) ext ident = (e, m) # removeEntry reg ext ident"
      using False by (auto simp: removeEntry_def split: option.splits)
    with False b ih show ?thesis
      by (simp add: entries_Cons filter_bucket)
  qed
qed

lemma entries_lookup:
  assumes "wf_registry reg" and "((e, i), v) \<in> set (entries reg)"
  shows "lookup reg e i = Some v"
proof -
  from assms(2) obtain m where m: "(e, m) \<in> set reg" and v: "(i, v) \<in> set m"
    by (auto simp: entries_def)
  from assms(1) m have "map_of reg e = Some m"
    by (simp add: wf_registry_def)
  moreover from assms(1) m have "distinct (map fst m)"
    by (auto simp: wf_registry_def list_all_iff)
  with v have "map_of m i = Some v" by simp
  ultimately show ?thesis by (simp add: lookup_def)
qed

lemma list_all_update:
  "list_all P reg \<Longrightarrow> P (k, v) \<Longrightarrow> list_all P (AList.update k v reg)"
  by (induction reg) auto

lemma wf_bucket:
  "wf_registry reg \<Longrightarrow> map_of reg ext = Some m \<Longrightarrow> distinct (map fst m) \<and> m \<noteq> []"
  by (auto simp: wf_registry_def list_all_iff dest!: map_of_SomeD)

lemma wf_store:
  assumes "wf_registry reg"
  shows "wf_registry (storeEntry reg ext ident v)"
proof -
  let ?m = "case map_of reg ext of None \<Rightarrow> [] | Some m \<Rightarrow> m"
  have "distinct (map fst ?m)"
    using wf_bucket [OF assms] by (auto split: option.splits)
  then have d: "distinct (map fst (AList.update ident v ?m))"
    by (rule distinct_update)
  have n: "AList.update ident v ?m \<noteq> []"
    by (cases ?m) auto
  from assms d n show ?thesis
    unfolding storeEntry_def wf_registry_def
    by (auto intro!: list_all_update distinct_update)
qed

lemma list_all_delete: "list_all P reg \<Longrightarrow> list_all P (AList.delete k reg)"
  by (induction reg) auto

lemma wf_remove:
  assumes "wf_registry reg"
  shows "wf_registry (removeEntry reg ext ident)"
proof (cases "map_of reg ext")
  case None
  with assms show ?thesis by (simp add: removeEntry_def)
next
  case (Some m)
  let ?m' = "AList.delete ident m"
  from wf_bucket [OF assms Some] have dm: "distinct (map fst ?m')"
    by (simp add: distinct_delete)
  show ?thesis
  proof (cases "?m' = []")
    case True
    with assms Some show ?thesis
      by (simp add: wf_registry_def removeEntry_def distinct_delete list_all_delete)
  next
    case False
    with assms Some dm show ?thesis
      by (simp add: wf_registry_def removeEntry_def distinct_update list_all_update)
  qed
qed

lemma store_remove_roundtrip:
  assumes wf: "wf_registry reg" and fresh: "lookup reg ext ident = None"
  shows "removeEntry (storeEntry reg ext ident v) ext ident = reg"
proof (cases "map_of reg ext")
  case None
  then have "ext \<notin> fst ` set reg" by (simp add: map_of_eq_None_iff)
  with None show ?thesis
    by (simp add: storeEntry_def removeEntry_def update_conv' delete_update_same)
next
  case (Some m)
  from wf_bucket [OF wf Some] have ne: "m \<noteq> []" by simp
  from fresh Some have "map_of m ident = None" by (simp add: lookup_def)
  then have "ident \<notin> fst ` set m" by (simp add: map_of_eq_None_iff)
  then have del: "AList.delete ident (AList.update ident q m) = m" for q
    by (simp add: delete_update_same)
  from Some have "AList.update ext m reg = reg" by (rule update_triv)
  with Some ne del show ?thesis
    by (simp add: storeEntry_def removeEntry_def update_conv')
qed

lemma wf_registry_empty: "wf_registry []"
  by (simp add: wf_registry_def)

lemma removed_not_yielded:
  assumes wf: "wf_registry reg"
    and others: "\<forall>e i. (e, i) \<noteq> (ext, ident) \<longrightarrow> lookup reg e i \<noteq> Some v"
  shows "v \<notin> set (map snd (entries (removeEntry (storeEntry reg ext ident v) ext ident)))"
proof
  let ?reg' = "storeEntry reg ext ident v"
  assume yielded: "v \<in> set (map snd (entries (removeEntry ?reg' ext ident)))"
  have wf': "wf_registry ?reg'" using wf by (rule wf_store)
  then have eq: "entries (removeEntry ?reg' ext ident)
               = filter (\<lambda>(k, _). k \<noteq> (ext, ident)) (entries ?reg')"
    by (simp add: entries_remove wf_registry_def)
  from yielded obtain kv where kv: "kv \<in> set (filter (\<lambda>(k, _). k \<noteq> (ext, ident)) (entries ?reg'))"
    and sv: "snd kv = v"
    unfolding eq by auto
  obtain e i where ei: "fst kv = (e, i)" by (cases "fst kv")
  from sv ei have kv_eq: "kv = ((e, i), v)" by (cases kv) simp
  from kv have k: "(e, i) \<noteq> (ext, ident)" and mem: "((e, i), v) \<in> set (entries ?reg')"
    unfolding kv_eq by simp_all
  from entries_lookup [OF wf' mem] have "lookup ?reg' e i = Some v" .
  with k have "lookup reg e i = Some v" by (simp add: lookup_store_other)
  with k others show False by blast
qed

text \<open>
  C8, as amended. Registration writes the id and the trigger characters into the provider
  object (and changes no other object), stores the reference to it under the namespace and
  then the id, leaves every other entry as it was, and returns a handle for these two keys.
  Running the handle changes no object, removes that entry and no other, and removes the
  bucket of the namespace exactly when no other id is left in it. On maps with distinct keys
  and no empty bucket (the maps of every state built from the empty one are such) the view
  then yields the objects of the other entries, in their order: it no longer yields the
  provider object unless the same object is also registered under other keys; and a
  registration under fresh keys followed by its disposal gives the maps back. Registering
  again under the same keys leaves the maps that the second registration alone would have
  made.
\<close>

theorem register_and_dispose:
  "(let r = registerTerminalCompletionProvider st ext ident prov tcs; st' = fst r; h = snd r in
      h = (ext, ident)
      \<and> objects st' = (objects st)
                         (prov := (objects st prov)\<lparr>triggerCharacters := Some tcs, id_p := ident\<rparr>)
      \<and> lookup (providers_map st') ext ident = Some prov
      \<and> (\<forall>e i. (e, i) \<noteq> (ext, ident)
             \<longrightarrow> lookup (providers_map st') e i = lookup (providers_map st) e i)
      \<and> objects (dispose st' h) = objects st'
      \<and> lookup (providers_map (dispose st' h)) ext ident = None
      \<and> (\<forall>e i. (e, i) \<noteq> (ext, ident)
             \<longrightarrow> lookup (providers_map (dispose st' h)) e i = lookup (providers_map st') e i)
      \<and> (map_of (providers_map (dispose st' h)) ext = None
            \<longleftrightarrow> (\<forall>i. i \<noteq> ident \<longrightarrow> lookup (providers_map st') ext i = None))
      \<and> providers (registry_of st') = map (objects st') (providerObjects st')
      \<and> (wf_registry (providers_map st) \<longrightarrow>
            wf_registry (providers_map st') \<and> wf_registry (providers_map (dispose st' h))
            \<and> providerObjects (dispose st' h)
                = map snd (filter (\<lambda>(k, _). k \<noteq> (ext, ident)) (entries (providers_map st'))))
      \<and> (wf_registry (providers_map st)
           \<and> (\<forall>e i. (e, i) \<noteq> (ext, ident) \<longrightarrow> lookup (providers_map st) e i \<noteq> Some prov)
          \<longrightarrow> prov \<notin> set (providerObjects (dispose st' h)))
      \<and> (wf_registry (providers_map st) \<and> lookup (providers_map st) ext ident = None
          \<longrightarrow> providers_map (dispose st' h) = providers_map st)
      \<and> providers_map (fst (registerTerminalCompletionProvider st' ext ident prov2 tcs2))
          = providers_map (fst (registerTerminalCompletionProvider st ext ident prov2 tcs2)))"
proof -
  let ?st' = "fst (registerTerminalCompletionProvider st ext ident prov tcs)"
  let ?m = "providers_map st"
  have h: "snd (registerTerminalCompletionProvider st ext ident prov tcs) = (ext, ident)"
    by (rule register_handle)
  have m': "providers_map ?st' = storeEntry ?m ext ident prov"
    by (rule register_maps)
  have d': "providers_map (dispose ?st' (ext, ident)) = removeEntry (storeEntry ?m ext ident prov) ext ident"
    by (simp add: dispose_maps m')
  have c0: "objects ?st' = (objects st)
                         (prov := (objects st prov)\<lparr>triggerCharacters := Some tcs, id_p := ident\<rparr>)"
    by (rule register_objects)
  have c1: "lookup (providers_map ?st') ext ident = Some prov"
    by (simp add: m' lookup_store_same)
  have c2: "\<forall>e i. (e, i) \<noteq> (ext, ident)
              \<longrightarrow> lookup (providers_map ?st') e i = lookup ?m e i"
    by (simp add: m' lookup_store_other)
  have c2': "objects (dispose ?st' (ext, ident)) = objects ?st'"
    by (rule dispose_objects)
  have c3: "lookup (providers_map (dispose ?st' (ext, ident))) ext ident = None"
    by (simp add: d' lookup_remove_same)
  have c4: "\<forall>e i. (e, i) \<noteq> (ext, ident)
              \<longrightarrow> lookup (providers_map (dispose ?st' (ext, ident))) e i
                    = lookup (providers_map ?st') e i"
    by (simp add: d' m' lookup_remove_other)
  have c5: "map_of (providers_map (dispose ?st' (ext, ident))) ext = None
              \<longleftrightarrow> (\<forall>i. i \<noteq> ident \<longrightarrow> lookup (providers_map ?st') ext i = None)"
    unfolding d' m' by (rule remove_bucket)
  have c6: "providers (registry_of ?st') = map (objects ?st') (providerObjects ?st')"
    by (rule providers_registry_of)
  have c7: "wf_registry ?m \<longrightarrow>
            wf_registry (providers_map ?st') \<and> wf_registry (providers_map (dispose ?st' (ext, ident)))
            \<and> providerObjects (dispose ?st' (ext, ident))
                = map snd (filter (\<lambda>(k, _). k \<noteq> (ext, ident)) (entries (providers_map ?st')))"
  proof
    assume wf: "wf_registry ?m"
    have w': "wf_registry (storeEntry ?m ext ident prov)" using wf by (rule wf_store)
    then have "distinct (map fst (storeEntry ?m ext ident prov))" by (simp add: wf_registry_def)
    then have "entries (removeEntry (storeEntry ?m ext ident prov) ext ident)
                 = filter (\<lambda>(k, _). k \<noteq> (ext, ident)) (entries (storeEntry ?m ext ident prov))"
      by (rule entries_remove)
    with w' wf_remove [OF w', of ext ident]
    show "wf_registry (providers_map ?st') \<and> wf_registry (providers_map (dispose ?st' (ext, ident)))
            \<and> providerObjects (dispose ?st' (ext, ident))
                = map snd (filter (\<lambda>(k, _). k \<noteq> (ext, ident)) (entries (providers_map ?st')))"
      by (simp add: providerObjects_entries d' m')
  qed
  have c8: "wf_registry ?m
           \<and> (\<forall>e i. (e, i) \<noteq> (ext, ident) \<longrightarrow> lookup ?m e i \<noteq> Some prov)
          \<longrightarrow> prov \<notin> set (providerObjects (dispose ?st' (ext, ident)))"
  proof
    assume a: "wf_registry ?m
           \<and> (\<forall>e i. (e, i) \<noteq> (ext, ident) \<longrightarrow> lookup ?m e i \<noteq> Some prov)"
    then have "prov \<notin> set (map snd (entries (removeEntry (storeEntry ?m ext ident prov) ext ident)))"
      using removed_not_yielded [of ?m ext ident prov] by blast
    then show "prov \<notin> set (providerObjects (dispose ?st' (ext, ident)))"
      by (simp add: providerObjects_entries d')
  qed
  have c9: "wf_registry ?m \<and> lookup ?m ext ident = None
          \<longrightarrow> providers_map (dispose ?st' (ext, ident)) = ?m"
    by (simp add: d' store_remove_roundtrip)
  have c10: "providers_map (fst (registerTerminalCompletionProvider ?st' ext ident prov2 tcs2))
          = providers_map (fst (registerTerminalCompletionProvider st ext ident prov2 tcs2))"
    by (simp add: register_maps store_overwrites)
  show ?thesis
    unfolding Let_def h
    apply (intro conjI)
                apply (rule refl)
               apply (rule c0)
              apply (rule c1)
             apply (rule c2)
            apply (rule c2')
           apply (rule c3)
          apply (rule c4)
         apply (rule c5)
        apply (rule c6)
       apply (rule c7)
      apply (rule c8)
     apply (rule c9)
    apply (rule c10)
    done
qed

theorem register_and_dispose_witness:
  "wf_registry (providers_map ex_state)
   \<and> lookup (providers_map ex_state) ''vendor'' ''new'' = None
   \<and> snd (registerTerminalCompletionProvider ex_state ''vendor'' ''new'' 2 [''-'']) = (''vendor'', ''new'')
   \<and> lookup (providers_map (fst (registerTerminalCompletionProvider ex_state ''vendor'' ''new'' 2 [''-''])))
       ''vendor'' ''new'' = Some 2
   \<and> id_p (objects (fst (registerTerminalCompletionProvider ex_state ''vendor'' ''new'' 2 [''-''])) 2)
       = ''new''
   \<and> wf_registry (providers_map (fst (registerTerminalCompletionProvider ex_state ''vendor'' ''new'' 2
                                        [''-''])))
   \<and> providers_map (dispose (fst (registerTerminalCompletionProvider ex_state ''vendor'' ''new'' 2 [''-'']))
                      (''vendor'', ''new'')) = providers_map ex_state
   \<and> 2 \<notin> set (providerObjects (dispose (fst (registerTerminalCompletionProvider ex_state ''vendor''
                                              ''new'' 2 [''-''])) (''vendor'', ''new'')))
   \<and> lookup (providers_map (dispose (fst (registerTerminalCompletionProvider ex_state ''vendor'' ''new'' 2
                                            [''-''])) (''vendor'', ''new''))) ''vendor'' ''off''
       = lookup (providers_map (fst (registerTerminalCompletionProvider ex_state ''vendor'' ''new'' 2
                                       [''-'']))) ''vendor'' ''off''"
proof -
  define r where "r = registerTerminalCompletionProvider ex_state ''vendor'' ''new'' 2 [''-'']"
  have pm: "providers_map ex_state = [(''core'', [(''builtin'', 0)]), (''vendor'', [(''off'', 1)])]"
    by (simp add: ex_state_def)
  have wf: "wf_registry (providers_map ex_state)"
    by (simp add: wf_registry_def pm)
  have fresh: "lookup (providers_map ex_state) ''vendor'' ''new'' = None"
    by (simp add: lookup_def pm)
  have other: "(''vendor'', ''off'') \<noteq> (''vendor'', ''new'')"
    by simp
  have unshared: "\<forall>e i. (e, i) \<noteq> (''vendor'', ''new'')
                    \<longrightarrow> lookup (providers_map ex_state) e i \<noteq> Some 2"
    by (simp add: lookup_def pm)
  note inst = register_and_dispose
    [of ex_state "''vendor''" "''new''" 2 "[''-'']" 2 "[]", unfolded Let_def, folded r_def]
  have hd: "snd r = (''vendor'', ''new'')"
    using inst by (rule conjunct1)
  note rest = inst [unfolded hd]
  have stamped: "objects (fst r)
                   = (objects ex_state)
                       (2 := (objects ex_state 2)\<lparr>triggerCharacters := Some [''-''], id_p := ''new''\<rparr>)"
    using rest by (elim conjE)
  then have named: "id_p (objects (fst r) 2) = ''new''"
    by simp
  have stored: "lookup (providers_map (fst r)) ''vendor'' ''new'' = Some 2"
    using rest by (elim conjE)
  have "\<forall>e i. (e, i) \<noteq> (''vendor'', ''new'')
          \<longrightarrow> lookup (providers_map (dispose (fst r) (''vendor'', ''new''))) e i
                = lookup (providers_map (fst r)) e i"
    using rest by (elim conjE)
  with other have kept: "lookup (providers_map (dispose (fst r) (''vendor'', ''new''))) ''vendor'' ''off''
                           = lookup (providers_map (fst r)) ''vendor'' ''off''"
    by (elim allE impE)
  have "wf_registry (providers_map ex_state) \<longrightarrow>
          wf_registry (providers_map (fst r))
          \<and> wf_registry (providers_map (dispose (fst r) (''vendor'', ''new'')))
          \<and> providerObjects (dispose (fst r) (''vendor'', ''new''))
              = map snd (filter (\<lambda>(k, _). k \<noteq> (''vendor'', ''new'')) (entries (providers_map (fst r))))"
    using rest by (elim conjE)
  with wf have wf': "wf_registry (providers_map (fst r))"
    by (elim impE conjE)
  have "wf_registry (providers_map ex_state)
          \<and> (\<forall>e i. (e, i) \<noteq> (''vendor'', ''new'') \<longrightarrow> lookup (providers_map ex_state) e i \<noteq> Some 2)
          \<longrightarrow> 2 \<notin> set (providerObjects (dispose (fst r) (''vendor'', ''new'')))"
    using rest by (elim conjE)
  with wf unshared have absent: "2 \<notin> set (providerObjects (dispose (fst r) (''vendor'', ''new'')))"
    by (elim impE) (rule conjI)
  have "wf_registry (providers_map ex_state) \<and> lookup (providers_map ex_state) ''vendor'' ''new'' = None
          \<longrightarrow> providers_map (dispose (fst r) (''vendor'', ''new'')) = providers_map ex_state"
    using rest by (elim conjE)
  with wf fresh have undone: "providers_map (dispose (fst r) (''vendor'', ''new'')) = providers_map ex_state"
    by (elim impE) (rule conjI)
  from wf fresh hd stored named wf' undone absent kept show ?thesis
    unfolding r_def by (intro conjI)
qed

text \<open>
  C8, as stated, fails when the same provider object is registered under two pairs of keys:
  after the handle of the second registration has run, the view still yields the object (it
  is the object of the first entry, which now carries the id of the second registration).
\<close>

theorem view_still_yields_counterexample:
  "snd (registerTerminalCompletionProvider
          (fst (registerTerminalCompletionProvider ex_empty_state ''core'' ''builtin'' 0 [''/'']))
          ''vendor'' ''new'' 0 [''-'']) = (''vendor'', ''new'')
   \<and> providerObjects
        (dispose
           (fst (registerTerminalCompletionProvider
                   (fst (registerTerminalCompletionProvider ex_empty_state ''core'' ''builtin'' 0 [''/'']))
                   ''vendor'' ''new'' 0 [''-'']))
           (''vendor'', ''new'')) = [0]
   \<and> providers_map
        (dispose
           (fst (registerTerminalCompletionProvider
                   (fst (registerTerminalCompletionProvider ex_empty_state ''core'' ''builtin'' 0 [''/'']))
                   ''vendor'' ''new'' 0 [''-'']))
           (''vendor'', ''new'')) = [(''core'', [(''builtin'', 0)])]
   \<and> id_p (objects
        (dispose
           (fst (registerTerminalCompletionProvider
                   (fst (registerTerminalCompletionProvider ex_empty_state ''core'' ''builtin'' 0 [''/'']))
                   ''vendor'' ''new'' 0 [''-'']))
           (''vendor'', ''new'')) 0) = ''new''"
  by (simp add: registerTerminalCompletionProvider_def dispose_def providerObjects_def
        ex_empty_state_def Let_def)

end
